theory Spec2Isabelle
  imports Main "HOL-Library.Sublist" "HOL-Library.Multiset"
begin

section \<open>Python values and the operations the build script applies to them\<close>

text \<open>
  The configuration is whatever \<^verbatim>\<open>yaml.safe_load\<close> returns: \<^verbatim>\<open>None\<close>, a boolean, an
  integer, a string, a list or a dictionary.  A dictionary is an association list in
  insertion order (the order \<^verbatim>\<open>.items()\<close> iterates in); a Python dictionary never holds a
  key twice.  Strings and file contents are byte lists (\<^typ>\<open>string\<close>).  Floats, dates
  and the other scalars the loader can build are left out.
\<close>

datatype pyval =
    PNone
  | PBool bool
  | PInt int
  | PStr string
  | PList "pyval list"
  | PDict "(pyval \<times> pyval) list"

text \<open>The exceptions the script can die of.  None of them is caught by the script.\<close>

datatype exn =
    KeyError string
  | TypeError
  | AttributeError
  | FileNotFoundError
  | FileExistsError
  | IsADirectoryError
  | YAMLError

text \<open>
  \<^verbatim>\<open>"k" in v\<close> with a string on the left: key membership for a dictionary, element
  membership for a list, substring test for a string, \<^verbatim>\<open>TypeError\<close> for a value that is not
  iterable.
\<close>

fun py_contains :: "string \<Rightarrow> pyval \<Rightarrow> exn + bool" where
  "py_contains k (PDict kvs) = Inr (PStr k \<in> set (map fst kvs))"
| "py_contains k (PList xs) = Inr (PStr k \<in> set xs)"
| "py_contains k (PStr s) = Inr (sublist k s)"
| "py_contains k PNone = Inl TypeError"
| "py_contains k (PBool b) = Inl TypeError"
| "py_contains k (PInt i) = Inl TypeError"

text \<open>
  \<^verbatim>\<open>v["k"]\<close> with a string subscript: a lookup for a dictionary (\<^verbatim>\<open>KeyError\<close> when the key
  is absent), \<^verbatim>\<open>TypeError\<close> for every other value (a list and a string want an integer
  index, the rest is not subscriptable).
\<close>

fun py_getitem :: "pyval \<Rightarrow> string \<Rightarrow> exn + pyval" where
  "py_getitem (PDict kvs) k =
     (case map_of kvs (PStr k) of None \<Rightarrow> Inl (KeyError k) | Some v \<Rightarrow> Inr v)"
| "py_getitem PNone k = Inl TypeError"
| "py_getitem (PBool b) k = Inl TypeError"
| "py_getitem (PInt i) k = Inl TypeError"
| "py_getitem (PStr s) k = Inl TypeError"
| "py_getitem (PList xs) k = Inl TypeError"

text \<open>\<^verbatim>\<open>v.items()\<close>: only a dictionary has the method.\<close>

fun py_items :: "pyval \<Rightarrow> exn + (pyval \<times> pyval) list" where
  "py_items (PDict kvs) = Inr kvs"
| "py_items PNone = Inl AttributeError"
| "py_items (PBool b) = Inl AttributeError"
| "py_items (PInt i) = Inl AttributeError"
| "py_items (PStr s) = Inl AttributeError"
| "py_items (PList xs) = Inl AttributeError"

text \<open>\<^verbatim>\<open>isinstance(v, dict)\<close>.\<close>

fun is_dict :: "pyval \<Rightarrow> bool" where
  "is_dict (PDict kvs) = True"
| "is_dict PNone = False"
| "is_dict (PBool b) = False"
| "is_dict (PInt i) = False"
| "is_dict (PStr s) = False"
| "is_dict (PList xs) = False"

text \<open>
  An f-string field \<^verbatim>\<open>{v}\<close>: a string is inserted as it is; the text of any other object
  is the interpreter's \<^verbatim>\<open>str()\<close>, a parameter of the model.
\<close>

definition py_format :: "(pyval \<Rightarrow> string) \<Rightarrow> pyval \<Rightarrow> string" where
  "py_format to_text v = (case v of PStr s \<Rightarrow> s | _ \<Rightarrow> to_text v)"

subsection \<open>\<^verbatim>\<open>str.replace\<close>\<close>

text \<open>
  \<^verbatim>\<open>text.replace(old, new)\<close> scans from the left and replaces every non-overlapping
  occurrence of \<open>old\<close>; with an empty \<open>old\<close> it inserts \<open>new\<close> before every character
  and at the end.
\<close>

function replace_scan :: "string \<Rightarrow> string \<Rightarrow> string \<Rightarrow> string" where
  "replace_scan old new [] = []"
| "replace_scan old new (c # cs) =
     (if old \<noteq> [] \<and> prefix old (c # cs)
      then new @ replace_scan old new (drop (length old) (c # cs))
      else c # replace_scan old new cs)"
  by pat_completeness auto
termination
  by (relation "measure (\<lambda>(old, new, t). length t)") (auto simp: neq_Nil_conv)

definition replace :: "string \<Rightarrow> string \<Rightarrow> string \<Rightarrow> string" where
  "replace old new t =
     (if old = [] then new @ concat (map (\<lambda>c. c # new) t) else replace_scan old new t)"


text \<open>
  The substitution loop: \<^verbatim>\<open>for key, value in replacement_map.items():
  index_content = index_content.replace(f"BUILDER:{key}", value)\<close>.  The second argument
  of \<^verbatim>\<open>replace\<close> must be a string; anything else is a \<^verbatim>\<open>TypeError\<close>.
\<close>

fun substitute :: "(string \<times> pyval) list \<Rightarrow> string \<Rightarrow> exn + string" where
  "substitute [] index_content = Inr index_content"
| "substitute ((key, val) # rest) index_content =
     (case val of
        PStr v \<Rightarrow> substitute rest (replace (''BUILDER:'' @ key) v index_content)
      | _ \<Rightarrow> Inl TypeError)"

definition replacement_map ::
  "pyval \<Rightarrow> string \<Rightarrow> pyval \<Rightarrow> string \<Rightarrow> pyval \<Rightarrow> string \<Rightarrow> pyval \<Rightarrow> (string \<times> pyval) list" where
  "replacement_map page_language compiled_css page_title image_data_url welcome_message
      sections_html search_placeholder =
     [(''LANG'', page_language),
      (''STYLES'', PStr compiled_css),
      (''TITLE'', page_title),
      (''IMAGE'', PStr image_data_url),
      (''MESSAGE'', welcome_message),
      (''SECTIONS'', PStr sections_html),
      (''SEARCH_PLACEHOLDER'', search_placeholder)]"

subsection \<open>The section renderer\<close>

definition tab :: string where
  "tab = [CHR 0x09]"

definition section_head :: "(pyval \<Rightarrow> string) \<Rightarrow> pyval \<Rightarrow> string" where
  \<open>section_head to_text section_name =
     ''<section>\<newline>'' @ tab @ ''<h3>'' @ py_format to_text section_name @ ''</h3>\<newline>''
     @ tab @ ''<div class="sep"></div>\<newline>'' @ tab @ ''<ul>\<newline>''\<close>

definition link_item :: "(pyval \<Rightarrow> string) \<Rightarrow> pyval \<Rightarrow> pyval \<Rightarrow> pyval \<Rightarrow> string" where
  \<open>link_item to_text icon url link_name =
     tab @ tab @ ''<li data-icon="'' @ py_format to_text icon @ ''"><a href="''
     @ py_format to_text url @ ''">'' @ py_format to_text link_name @ ''</a></li>\<newline>''\<close>

definition section_foot :: string where
  \<open>section_foot = tab @ ''</ul>\<newline></section>\<newline>''\<close>

definition separator :: string where
  \<open>separator = ''<div class="sep"></div>\<newline>''\<close>

text \<open>
  The inner loop over \<^verbatim>\<open>links.items()\<close>, with \<open>sections_html\<close> as accumulator.  The
  f-string evaluates \<^verbatim>\<open>link_data["icon"]\<close> before \<^verbatim>\<open>link_data["url"]\<close>.
\<close>

fun links_loop :: "(pyval \<Rightarrow> string) \<Rightarrow> (pyval \<times> pyval) list \<Rightarrow> string \<Rightarrow> exn + string" where
  "links_loop to_text [] sections_html = Inr sections_html"
| "links_loop to_text ((link_name, link_data) # rest) sections_html =
     (case py_getitem link_data ''icon'' of
        Inl e \<Rightarrow> Inl e
      | Inr icon \<Rightarrow>
          (case py_getitem link_data ''url'' of
             Inl e \<Rightarrow> Inl e
           | Inr url \<Rightarrow>
               links_loop to_text rest (sections_html @ link_item to_text icon url link_name)))"

text \<open>
  The outer loop over \<^verbatim>\<open>config["sections"].items()\<close>, with \<open>sections_html\<close> and
  \<open>seperator_counter\<close> (the source's spelling) as accumulators.
\<close>

fun sections_loop ::
  "(pyval \<Rightarrow> string) \<Rightarrow> (pyval \<times> pyval) list \<Rightarrow> string \<Rightarrow> nat \<Rightarrow> exn + string" where
  "sections_loop to_text [] sections_html seperator_counter = Inr sections_html"
| "sections_loop to_text ((section_name, links) # rest) sections_html seperator_counter =
     (case py_items links of
        Inl e \<Rightarrow> Inl e
      | Inr items \<Rightarrow>
          (case links_loop to_text items (sections_html @ section_head to_text section_name) of
             Inl e \<Rightarrow> Inl e
           | Inr html \<Rightarrow>
               (if (seperator_counter + 1) mod 2 = 1
                then sections_loop to_text rest (html @ section_foot @ separator)
                       (seperator_counter + 1)
                else sections_loop to_text rest (html @ section_foot)
                       (seperator_counter + 1))))"

definition render_sections :: "(pyval \<Rightarrow> string) \<Rightarrow> pyval \<Rightarrow> exn + string" where
  "render_sections to_text sections =
     (case py_items sections of
        Inl e \<Rightarrow> Inl e
      | Inr items \<Rightarrow> sections_loop to_text items [] 0)"

subsection \<open>Base64 and the data URL\<close>

text \<open>
  \<^verbatim>\<open>base64.b64encode\<close>: the standard alphabet \<^verbatim>\<open>A-Z a-z 0-9 + /\<close>, three bytes to four
  characters, \<^verbatim>\<open>=\<close> padding.  \<open>b64char\<close> is the alphabet, indexed by a six-bit value.
\<close>

definition b64char :: "nat \<Rightarrow> char" where
  "b64char i =
     (if i < 26 then char_of (i + 65)
      else if i < 52 then char_of (i + 71)
      else if i < 62 then char_of (i - 4)
      else if i = 62 then CHR ''+''
      else CHR ''/'')"

fun b64encode :: "string \<Rightarrow> string" where
  "b64encode [] = []"
| "b64encode [a] =
     [b64char (of_char a div 4), b64char (of_char a mod 4 * 16), CHR ''='', CHR ''='']"
| "b64encode [a, b] =
     [b64char (of_char a div 4),
      b64char (of_char a mod 4 * 16 + of_char b div 16),
      b64char (of_char b mod 16 * 4),
      CHR ''='']"
| "b64encode (a # b # c # rest) =
     [b64char (of_char a div 4),
      b64char (of_char a mod 4 * 16 + of_char b div 16),
      b64char (of_char b mod 16 * 4 + of_char c div 64),
      b64char (of_char c mod 64)] @ b64encode rest"

text \<open>The decoder of the same alphabet; \<open>None\<close> for text that is not padded Base64.\<close>

definition b64value :: "char \<Rightarrow> nat option" where
  "b64value c =
     (let n = of_char c :: nat in
      if 65 \<le> n \<and> n \<le> 90 then Some (n - 65)
      else if 97 \<le> n \<and> n \<le> 122 then Some (n - 71)
      else if 48 \<le> n \<and> n \<le> 57 then Some (n + 4)
      else if n = 43 then Some 62
      else if n = 47 then Some 63
      else None)"

fun b64decode :: "string \<Rightarrow> string option" where
  "b64decode [] = Some []"
| "b64decode (w # x # y # z # rest) =
     (case (b64value w, b64value x) of
        (Some p, Some q) \<Rightarrow>
          (if z = CHR ''='' then
             (if rest \<noteq> [] then None
              else if y = CHR ''='' then Some [char_of (p * 4 + q div 16)]
              else (case b64value y of
                      None \<Rightarrow> None
                    | Some r \<Rightarrow> Some [char_of (p * 4 + q div 16), char_of (q mod 16 * 16 + r div 4)]))
           else
             (case (b64value y, b64value z, b64decode rest) of
                (Some r, Some s, Some bytes) \<Rightarrow>
                  Some (char_of (p * 4 + q div 16) # char_of (q mod 16 * 16 + r div 4)
                        # char_of (r mod 4 * 64 + s) # bytes)
              | _ \<Rightarrow> None))
      | _ \<Rightarrow> None)"
| "b64decode (w # rest) = None"


section \<open>The environment of a run\<close>

text \<open>
  A path is the expression the script builds it with: the directory of the script
  (\<^verbatim>\<open>Path(__file__).parent\<close>), \<^verbatim>\<open>p.parent\<close>, \<^verbatim>\<open>p / name\<close> and \<^verbatim>\<open>Path(text)\<close>.  The file
  system answers for such expressions; two expressions naming one file are not identified.
\<close>

datatype path =
    BuildDir
  | Parent path
  | Join path string
  | PathOf string

text \<open>
  The file system is the regular files with their content and the directories.
  Permissions and the decoding of text files are left out: a file that is there can be
  read, and its text is its bytes.
\<close>

record filesystem =
  files :: "path \<rightharpoonup> string"
  dirs :: "path set"

definition is_file :: "filesystem \<Rightarrow> path \<Rightarrow> bool" where
  "is_file fsys p = (files fsys p \<noteq> None)"

definition is_dir :: "filesystem \<Rightarrow> path \<Rightarrow> bool" where
  "is_dir fsys p = (p \<in> dirs fsys)"

text \<open>\<^verbatim>\<open>open(p, "r").read()\<close> and \<^verbatim>\<open>open(p, "rb").read()\<close>.\<close>

definition read_file :: "filesystem \<Rightarrow> path \<Rightarrow> exn + string" where
  "read_file fsys p =
     (case files fsys p of None \<Rightarrow> Inl FileNotFoundError | Some content \<Rightarrow> Inr content)"

text \<open>\<^verbatim>\<open>(d / name).mkdir()\<close>: the parent must exist and the name must be free.\<close>

definition mkdir :: "filesystem \<Rightarrow> path \<Rightarrow> string \<Rightarrow> exn + filesystem" where
  "mkdir fsys d name =
     (if is_file fsys (Join d name) \<or> is_dir fsys (Join d name) then Inl FileExistsError
      else if \<not> is_dir fsys d then Inl FileNotFoundError
      else Inr (fsys\<lparr>dirs := insert (Join d name) (dirs fsys)\<rparr>))"

text \<open>\<^verbatim>\<open>open(d / name, "w").write(content)\<close>: creates the file or replaces its content.\<close>

definition write_file :: "filesystem \<Rightarrow> path \<Rightarrow> string \<Rightarrow> string \<Rightarrow> exn + filesystem" where
  "write_file fsys d name content =
     (if is_dir fsys (Join d name) then Inl IsADirectoryError
      else if \<not> is_dir fsys d then Inl FileNotFoundError
      else Inr (fsys\<lparr>files := (files fsys)(Join d name \<mapsto> content)\<rparr>))"

text \<open>
  What a run depends on and the script does not define: whether the two libraries
  import, the file system, the YAML loader, the stylesheet compiler (\<open>Inl\<close> is the text of
  its \<^verbatim>\<open>CompileError\<close>), \<^verbatim>\<open>mimetypes.guess_type\<close>, and the interpreter's text of a path
  and of a value that is not a string.
\<close>

record env =
  yaml_installed :: bool
  sass_installed :: bool
  fs :: filesystem
  yaml_safe_load :: "string \<Rightarrow> exn + pyval"
  sass_compile :: "string \<Rightarrow> string + string"
  guess_type :: "path \<Rightarrow> string option"
  path_str :: "path \<Rightarrow> string"
  obj_str :: "pyval \<Rightarrow> string"

text \<open>
  Every \<^verbatim>\<open>sys.exit\<close> of the script, named by what was found missing, and the status it
  passes.
\<close>

datatype failure =
    NoYaml
  | NoSass
  | NoIndexSource
  | NoStyleSource
  | NoConfigFile
  | ConfigError
  | NoThemeDir
  | NoThemeFile
  | NoFontDir
  | NoFontFile
  | NoImage
  | CompileFailed

fun exit_status :: "failure \<Rightarrow> nat" where
  "exit_status NoYaml = 1"
| "exit_status NoSass = 1"
| "exit_status NoIndexSource = 2"
| "exit_status NoStyleSource = 2"
| "exit_status NoConfigFile = 3"
| "exit_status ConfigError = 3"
| "exit_status NoThemeDir = 4"
| "exit_status NoThemeFile = 4"
| "exit_status NoFontDir = 5"
| "exit_status NoFontFile = 5"
| "exit_status NoImage = 6"
| "exit_status CompileFailed = 7"

datatype stop = Exit failure | Raise exn

text \<open>
  A stretch of the script: the lines it prints, and either the reason it stopped the
  process or its value.
\<close>

type_synonym 'a step = "string list \<times> (stop + 'a)"

definition ret :: "'a \<Rightarrow> 'a step" where
  "ret x = ([], Inr x)"

definition say :: "string \<Rightarrow> unit step" where
  "say line = ([line], Inr ())"

definition exit_with :: "string list \<Rightarrow> failure \<Rightarrow> 'a step" where
  "exit_with lines f = (lines, Inl (Exit f))"

definition py :: "exn + 'a \<Rightarrow> 'a step" where
  "py r = (case r of Inl e \<Rightarrow> ([], Inl (Raise e)) | Inr x \<Rightarrow> ([], Inr x))"

definition then_do :: "'a step \<Rightarrow> ('a \<Rightarrow> 'b step) \<Rightarrow> 'b step" where
  "then_do m f =
     (case m of
        (out, Inl s) \<Rightarrow> (out, Inl s)
      | (out, Inr x) \<Rightarrow> (case f x of (out', r) \<Rightarrow> (out @ out', r)))"

definition bind_exn :: "exn + 'a \<Rightarrow> ('a \<Rightarrow> exn + 'b) \<Rightarrow> exn + 'b" where
  "bind_exn r f = (case r of Inl e \<Rightarrow> Inl e | Inr x \<Rightarrow> f x)"


section \<open>The build script\<close>

definition build_dir_path :: path where
  "build_dir_path = BuildDir"

definition index_path :: path where
  "index_path = Join (Join build_dir_path ''sources'') ''index.html''"

definition style_path :: path where
  "style_path = Join (Join build_dir_path ''sources'') ''style.scss''"

definition config_path :: path where
  "config_path = Join build_dir_path ''config.yaml''"

definition root_dir :: path where
  "root_dir = Parent build_dir_path"

definition dist_dir :: path where
  "dist_dir = Join root_dir ''dist''"

definition html_output_file_path :: path where
  "html_output_file_path = Join dist_dir ''index.html''"

text \<open>The two guarded imports at the top of the script.\<close>

definition check_imports :: "env \<Rightarrow> unit step" where
  "check_imports E =
     (if \<not> yaml_installed E then
        exit_with
          [''PyYAML is not installed.\<newline>Install it using one of these methods:\<newline>\<newline>Debian-based Linux system:\<newline>sudo apt install python3-yaml\<newline>\<newline>Windows/Other:\<newline>pip install pyyaml'']
          NoYaml
      else if \<not> sass_installed E then
        exit_with
          [''libsass is not installed.\<newline>Install it using one of these methods:\<newline>\<newline>Debian-based Linux system:\<newline>sudo apt install python3-libsass\<newline>\<newline>Windows/Other:\<newline>pip install libsass'']
          NoSass
      else ret ())"

definition config_error :: "string \<Rightarrow> 'a step" where
  "config_error msg =
     exit_with
       [msg @ ''\<newline>Refer to the documentation for instructions on how to correctly create a config file.'']
       ConfigError"

definition image_to_data_url :: "env \<Rightarrow> path \<Rightarrow> exn + string" where
  "image_to_data_url E p =
     (let mimetype = guess_type E p in
      case read_file (fs E) p of
        Inl e \<Rightarrow> Inl e
      | Inr bytes \<Rightarrow>
          Inr (''data:'' @ (case mimetype of None \<Rightarrow> ''None'' | Some m \<Rightarrow> m) @ '';base64,''
               @ b64encode bytes))"

text \<open>The checks of the three fixed files (\<^verbatim>\<open># Check source/config files\<close>).\<close>

definition check_sources :: "env \<Rightarrow> unit step" where
  "check_sources E =
     (if \<not> is_file (fs E) index_path then
        exit_with
          [''Could not find source file '' @ path_str E index_path
           @ '' which is required for building.'']
          NoIndexSource
      else if \<not> is_file (fs E) style_path then
        exit_with
          [''Could not find source file '' @ path_str E style_path
           @ '' which is required for building.'']
          NoStyleSource
      else if \<not> is_file (fs E) config_path then
        exit_with
          [''Could not find a config file at '' @ path_str E config_path
           @ '' which is required for building.'']
          NoConfigFile
      else ret ())"

definition read_config :: "env \<Rightarrow> pyval step" where
  "read_config E = py (bind_exn (read_file (fs E) config_path) (yaml_safe_load E))"

text \<open>
  \<^verbatim>\<open>if "k" not in container: config_error('Key "name" not found in config.')\<close>, where
  evaluating the container may already raise.
\<close>

definition key_not_found :: "string \<Rightarrow> string" where
  \<open>key_not_found name = ''Key "'' @ name @ ''" not found in config.''\<close>

definition require_key :: "string \<Rightarrow> exn + pyval \<Rightarrow> string \<Rightarrow> unit step" where
  "require_key k container name =
     (case bind_exn container (py_contains k) of
        Inl e \<Rightarrow> py (Inl e)
      | Inr found \<Rightarrow> if \<not> found then config_error (key_not_found name) else ret ())"

text \<open>\<^verbatim>\<open>config[a][b]\<close>.\<close>

definition py_getitem2 :: "pyval \<Rightarrow> string \<Rightarrow> string \<Rightarrow> exn + pyval" where
  "py_getitem2 v a b = bind_exn (py_getitem v a) (\<lambda>w. py_getitem w b)"

text \<open>
  \<^verbatim>\<open># Get theme files\<close>.  \<^verbatim>\<open>root_dir / "themes" / theme_name\<close> is a \<^verbatim>\<open>TypeError\<close> unless the
  name is a string.  The value is \<open>theme_file_path\<close>.
\<close>

definition get_theme :: "env \<Rightarrow> pyval \<Rightarrow> path step" where
  \<open>get_theme E config =
     then_do (require_key ''theme'' (py_getitem config ''look'') ''look/theme'') (\<lambda>_.
     then_do (py (py_getitem2 config ''look'' ''theme'')) (\<lambda>theme_name.
       case theme_name of
         PStr name \<Rightarrow>
           (let theme_dir = Join (Join root_dir ''themes'') name;
                theme_file_path = Join theme_dir ''theme.scss''
            in if \<not> is_dir (fs E) theme_dir then
                 exit_with
                   [''Theme "'' @ name @ ''" doesn't exist!\<newline>Make sure there are no typos in the config file or the theme directory name and that the theme exists at ''
                    @ path_str E theme_dir @ ''.'']
                   NoThemeDir
               else if \<not> is_file (fs E) theme_file_path then
                 exit_with
                   [''The directory for the "'' @ name @ ''" theme exists, but there is no theme.scss file inside it!\<newline>Make sure there is no typo in the name of the file.'']
                   NoThemeFile
               else
                 then_do (say (''Using theme:\<newline>'' @ tab @ name @ '' ('' @ path_str E theme_file_path @ '')''))
                   (\<lambda>_. ret theme_file_path))
       | _ \<Rightarrow> py (Inl TypeError)))\<close>

text \<open>
  \<^verbatim>\<open># Get font files\<close>.  The guard of this block tests the key \<^verbatim>\<open>"theme"\<close> once more, as the
  source does, and then reads \<^verbatim>\<open>config["look"]["font"]\<close>.  The value is \<open>font_file_path\<close>.
\<close>

definition get_font :: "env \<Rightarrow> pyval \<Rightarrow> path step" where
  \<open>get_font E config =
     then_do (require_key ''theme'' (py_getitem config ''look'') ''look/theme'') (\<lambda>_.
     then_do (py (py_getitem2 config ''look'' ''font'')) (\<lambda>font_name.
       case font_name of
         PStr name \<Rightarrow>
           (let font_dir = Join (Join root_dir ''fonts'') name;
                font_file_path = Join font_dir ''font.scss''
            in if \<not> is_dir (fs E) font_dir then
                 exit_with
                   [''Font "'' @ name @ ''" doesn't exist!\<newline>Make sure there are no typos in the config file or the font directory name and that the font exists at ''
                    @ path_str E font_dir @ ''.'']
                   NoFontDir
               else if \<not> is_file (fs E) font_file_path then
                 exit_with
                   [''The directory for the "'' @ name @ ''" font exists, but there is no font.scss file inside it!\<newline>Make sure there is no typo in the name of the file.'']
                   NoFontFile
               else
                 then_do (say (''Using font:\<newline>'' @ tab @ name @ '' ('' @ path_str E font_file_path @ '')''))
                   (\<lambda>_. ret font_file_path))
       | _ \<Rightarrow> py (Inl TypeError)))\<close>

text \<open>\<^verbatim>\<open># Get the image file\<close>.  \<^verbatim>\<open>Path(v)\<close> is a \<^verbatim>\<open>TypeError\<close> unless \<open>v\<close> is a string.\<close>

definition get_image :: "env \<Rightarrow> pyval \<Rightarrow> path step" where
  \<open>get_image E config =
     then_do (require_key ''image'' (py_getitem config ''look'') ''look/image'') (\<lambda>_.
     then_do (py (py_getitem2 config ''look'' ''image'')) (\<lambda>image.
       case image of
         PStr name \<Rightarrow>
           (let image_file_path = PathOf name
            in if \<not> is_file (fs E) image_file_path then
                 exit_with
                   [''The image specified ("'' @ path_str E image_file_path @ ''") doesn't exist!\<newline>Make sure there is no typo in the config file or the target image file name.'']
                   NoImage
               else
                 then_do (say (''Using image:\<newline>'' @ tab @ path_str E image_file_path))
                   (\<lambda>_. ret image_file_path))
       | _ \<Rightarrow> py (Inl TypeError)))\<close>

text \<open>\<^verbatim>\<open># Get the welcome message\<close>.\<close>

definition get_message :: "env \<Rightarrow> pyval \<Rightarrow> pyval step" where
  \<open>get_message E config =
     then_do (require_key ''message'' (py_getitem config ''look'') ''look/message'') (\<lambda>_.
     then_do (py (py_getitem2 config ''look'' ''message'')) (\<lambda>welcome_message.
     then_do (say (''Welcome message:\<newline>'' @ tab @ ''"'' @ py_format (obj_str E) welcome_message @ ''"''))
       (\<lambda>_. ret welcome_message)))\<close>

text \<open>\<^verbatim>\<open># Get the page language and title\<close>.  The value is \<open>(page_language, page_title)\<close>.\<close>

definition get_page :: "pyval \<Rightarrow> (pyval \<times> pyval) step" where
  "get_page config =
     then_do (require_key ''page'' (Inr config) ''page'') (\<lambda>_.
     then_do (require_key ''lang'' (py_getitem config ''page'') ''page/lang'') (\<lambda>_.
     then_do (py (py_getitem2 config ''page'' ''lang'')) (\<lambda>page_language.
     then_do (require_key ''title'' (py_getitem config ''page'') ''page/title'') (\<lambda>_.
     then_do (py (py_getitem2 config ''page'' ''title'')) (\<lambda>page_title.
       ret (page_language, page_title))))))"

text \<open>\<^verbatim>\<open># Get the search settings\<close>.\<close>

definition get_search :: "pyval \<Rightarrow> pyval step" where
  "get_search config =
     then_do (require_key ''search'' (Inr config) ''search'') (\<lambda>_.
     then_do (require_key ''placeholder'' (py_getitem config ''search'') ''search/placeholder'') (\<lambda>_.
       py (py_getitem2 config ''search'' ''placeholder'')))"

text \<open>\<^verbatim>\<open># Merge and compile SCSS\<close>.  The value is \<open>compiled_css\<close>.\<close>

definition style_content :: "string \<Rightarrow> string \<Rightarrow> string \<Rightarrow> string" where
  "style_content theme_text font_text base_text =
     (theme_text @ ''\<newline>'') @ (font_text @ ''\<newline>'') @ base_text"

definition compile_styles :: "env \<Rightarrow> path \<Rightarrow> path \<Rightarrow> string step" where
  "compile_styles E theme_file_path font_file_path =
     then_do (py (read_file (fs E) theme_file_path)) (\<lambda>theme_text.
     then_do (py (read_file (fs E) font_file_path)) (\<lambda>font_text.
     then_do (py (read_file (fs E) style_path)) (\<lambda>base_text.
       case sass_compile E (style_content theme_text font_text base_text) of
         Inl e \<Rightarrow> exit_with [''\<newline>Failed to compile your theme/font:'', e] CompileFailed
       | Inr compiled_css \<Rightarrow> ret compiled_css)))"

text \<open>\<^verbatim>\<open># Prepare HTML\<close>: the two guards on \<^verbatim>\<open>sections\<close> and the rendering loop.\<close>

definition prepare_sections :: "env \<Rightarrow> pyval \<Rightarrow> string step" where
  \<open>prepare_sections E config =
     then_do (require_key ''sections'' (Inr config) ''sections'') (\<lambda>_.
     then_do (py (py_getitem config ''sections'')) (\<lambda>sections.
       if \<not> is_dict sections then
         config_error ''Key "sections" exists, but is not the right type (should be a dictionary).''
       else
         then_do (say ''\<newline>Generating sections...'') (\<lambda>_.
         then_do (py (render_sections (obj_str E) sections)) (\<lambda>sections_html.
         then_do (say (tab @ ''Sections generated.'')) (\<lambda>_.
           ret sections_html)))))\<close>

definition convert_image :: "env \<Rightarrow> path \<Rightarrow> string step" where
  "convert_image E image_file_path =
     then_do (say ''\<newline>Converting image...'') (\<lambda>_.
     then_do (py (image_to_data_url E image_file_path)) (\<lambda>image_data_url.
     then_do (say (tab @ ''Image converted.'')) (\<lambda>_.
       ret image_data_url)))"

text \<open>
  Everything up to the substituted text of the page.  The first config guard,
  \<^verbatim>\<open>"look" not in config\<close>, stands before the theme block.
\<close>

definition compose :: "env \<Rightarrow> string step" where
  "compose E =
     then_do (check_imports E) (\<lambda>_.
     then_do (check_sources E) (\<lambda>_.
     then_do (read_config E) (\<lambda>config.
     then_do (require_key ''look'' (Inr config) ''look'') (\<lambda>_.
     then_do (get_theme E config) (\<lambda>theme_file_path.
     then_do (get_font E config) (\<lambda>font_file_path.
     then_do (get_image E config) (\<lambda>image_file_path.
     then_do (get_message E config) (\<lambda>welcome_message.
     then_do (get_page config) (\<lambda>(page_language, page_title).
     then_do (get_search config) (\<lambda>search_placeholder.
     then_do (compile_styles E theme_file_path font_file_path) (\<lambda>compiled_css.
     then_do (prepare_sections E config) (\<lambda>sections_html.
     then_do (convert_image E image_file_path) (\<lambda>image_data_url.
     then_do (py (read_file (fs E) index_path)) (\<lambda>index_content.
       py (substitute
             (replacement_map page_language compiled_css page_title image_data_url
                welcome_message sections_html search_placeholder)
             index_content)))))))))))))))"

text \<open>
  A run: what was printed, how the process ended, and the file system it left.  Nothing
  is written before the page text is complete.
\<close>

datatype ending = Finished | Stopped stop

record run =
  printed :: "string list"
  ending :: ending
  fs_after :: filesystem

definition build :: "env \<Rightarrow> run" where
  "build E =
     (case compose E of
        (out, Inl s) \<Rightarrow> \<lparr>printed = out, ending = Stopped s, fs_after = fs E\<rparr>
      | (out, Inr index_content) \<Rightarrow>
          (case (if \<not> is_dir (fs E) dist_dir then mkdir (fs E) root_dir ''dist'' else Inr (fs E)) of
             Inl e \<Rightarrow> \<lparr>printed = out, ending = Stopped (Raise e), fs_after = fs E\<rparr>
           | Inr fs1 \<Rightarrow>
               (case write_file fs1 dist_dir ''index.html'' index_content of
                  Inl e \<Rightarrow> \<lparr>printed = out, ending = Stopped (Raise e), fs_after = fs1\<rparr>
                | Inr fs2 \<Rightarrow>
                    \<lparr>printed = out @ [''\<newline>Done!\<newline>'' @ tab @ ''Compiled to: ''
                                        @ path_str E html_output_file_path],
                     ending = Finished, fs_after = fs2\<rparr>)))"


section \<open>Notions the properties are stated with\<close>



text \<open>
  A key-path is present in a configuration when each key is found in the dictionary the
  keys before it lead to.  \<open>required_key_paths\<close> is the list of the specification.
\<close>

fun has_key_path :: "pyval \<Rightarrow> string list \<Rightarrow> bool" where
  "has_key_path v [] = True"
| "has_key_path v (k # ks) =
     (case v of
        PDict kvs \<Rightarrow> (case map_of kvs (PStr k) of None \<Rightarrow> False | Some w \<Rightarrow> has_key_path w ks)
      | _ \<Rightarrow> False)"

definition required_key_paths :: "string list list" where
  "required_key_paths =
     [[''look''], [''look'', ''theme''], [''look'', ''font''], [''look'', ''image''],
      [''look'', ''message''], [''page''], [''page'', ''lang''], [''page'', ''title''],
      [''search''], [''search'', ''placeholder''], [''sections'']]"

text \<open>
  The block of one section: what one pass of the outer loop appends to
  \<open>sections_html\<close> before it looks at the counter.
\<close>

definition section_block :: "(pyval \<Rightarrow> string) \<Rightarrow> pyval \<times> pyval \<Rightarrow> exn + string" where
  "section_block to_text sec =
     (case sec of (section_name, links) \<Rightarrow>
        bind_exn (py_items links) (\<lambda>items.
        bind_exn (links_loop to_text items (section_head to_text section_name)) (\<lambda>html.
          Inr (html @ section_foot))))"

text \<open>
  The marker every placeholder token starts with, and the seven keys.  A text is
  \<open>marker_free\<close> when no marker occurs in it and it does not end with a non-empty
  beginning of the marker.
\<close>

definition marker :: string where
  "marker = ''BUILDER:''"

definition token_keys :: "string list" where
  "token_keys =
     [''LANG'', ''STYLES'', ''TITLE'', ''IMAGE'', ''MESSAGE'', ''SECTIONS'', ''SEARCH_PLACEHOLDER'']"

fun marker_free :: "string \<Rightarrow> bool" where
  "marker_free [] = True"
| "marker_free (c # cs) =
     (\<not> prefix marker (c # cs) \<and> \<not> prefix (c # cs) marker \<and> marker_free cs)"

text \<open>
  A template cut into pieces: literal text and placeholder tokens.  \<open>flatten\<close> is its
  text, \<open>fill\<close> the text with every token that has a string value in the replacement map
  replaced by that value, all at once.
\<close>

datatype piece = Lit string | Tok string

fun flatten :: "piece list \<Rightarrow> string" where
  "flatten [] = []"
| "flatten (Lit l # ps) = l @ flatten ps"
| "flatten (Tok k # ps) = (''BUILDER:'' @ k) @ flatten ps"

fun well_cut :: "piece list \<Rightarrow> bool" where
  "well_cut [] = True"
| "well_cut (Lit l # ps) = (marker_free l \<and> well_cut ps)"
| "well_cut (Tok k # ps) = (k \<in> set token_keys \<and> well_cut ps)"

fun fill :: "(string \<times> pyval) list \<Rightarrow> piece list \<Rightarrow> string" where
  "fill m [] = []"
| "fill m (Lit l # ps) = l @ fill m ps"
| "fill m (Tok k # ps) =
     (case map_of m k of Some (PStr v) \<Rightarrow> v | _ \<Rightarrow> ''BUILDER:'' @ k) @ fill m ps"

text \<open>
  One piece after the tokens whose keys are in \<open>keys\<close> have been replaced by their string
  values in the replacement map.
\<close>

fun swap_piece :: "string set \<Rightarrow> (string \<times> pyval) list \<Rightarrow> piece \<Rightarrow> piece" where
  "swap_piece keys m (Lit l) = Lit l"
| "swap_piece keys m (Tok k) =
     (if k \<in> keys then (case map_of m k of Some (PStr s) \<Rightarrow> Lit s | _ \<Rightarrow> Tok k) else Tok k)"


section \<open>A sample site\<close>

text \<open>
  A small configuration, file system and environment on which the script runs to the
  end, and variants of it.  The sample compiler returns its input, the sample loader
  returns \<open>sample_config\<close> whatever the file says.
\<close>

definition sample_sections :: pyval where
  "sample_sections =
     PDict
       [(PStr ''A'', PDict [(PStr ''x'', PDict [(PStr ''icon'', PStr ''i1''), (PStr ''url'', PStr ''u1'')])]),
        (PStr ''B'', PDict [(PStr ''y'', PDict [(PStr ''icon'', PStr ''i2''), (PStr ''url'', PStr ''u2'')])]),
        (PStr ''C'', PDict [])]"

definition sample_look :: pyval where
  "sample_look =
     PDict [(PStr ''theme'', PStr ''dark''), (PStr ''font'', PStr ''mono''),
            (PStr ''image'', PStr ''logo.png''), (PStr ''message'', PStr ''Hi'')]"

definition sample_config :: pyval where
  "sample_config =
     PDict
       [(PStr ''look'', sample_look),
        (PStr ''page'', PDict [(PStr ''lang'', PStr ''en''), (PStr ''title'', PStr ''Start'')]),
        (PStr ''search'', PDict [(PStr ''placeholder'', PStr ''Find'')]),
        (PStr ''sections'', PDict [(PStr ''A'', PDict [])])]"

definition sample_template :: "piece list" where
  "sample_template =
     [Lit ''<'', Tok ''LANG'', Lit ''|'', Tok ''STYLES'', Lit ''|'', Tok ''TITLE'', Lit ''|'',
      Tok ''IMAGE'', Lit ''|'', Tok ''MESSAGE'', Lit ''|'', Tok ''SEARCH_PLACEHOLDER'', Lit ''>'']"

definition sample_fs :: filesystem where
  "sample_fs =
     \<lparr>files =
        [index_path \<mapsto> flatten sample_template,
         style_path \<mapsto> ''c'',
         config_path \<mapsto> ''look:'',
         Join (Join (Join root_dir ''themes'') ''dark'') ''theme.scss'' \<mapsto> ''a'',
         Join (Join (Join root_dir ''fonts'') ''mono'') ''font.scss'' \<mapsto> ''b'',
         PathOf ''logo.png'' \<mapsto> ''Man''],
      dirs =
        {build_dir_path, root_dir, Join build_dir_path ''sources'',
         Join root_dir ''themes'', Join (Join root_dir ''themes'') ''dark'',
         Join root_dir ''fonts'', Join (Join root_dir ''fonts'') ''mono''}\<rparr>"

definition sample_env :: env where
  "sample_env =
     \<lparr>yaml_installed = True,
      sass_installed = True,
      fs = sample_fs,
      yaml_safe_load = (\<lambda>text. Inr sample_config),
      sass_compile = (\<lambda>source. Inr source),
      guess_type = (\<lambda>p. if p = PathOf ''logo.png'' then Some ''image/png'' else None),
      path_str = (\<lambda>p. ''p''),
      obj_str = (\<lambda>v. ''o'')\<rparr>"


text \<open>The sample configuration without the key \<^verbatim>\<open>look/font\<close>.\<close>

definition no_font_config :: pyval where
  "no_font_config =
     PDict
       [(PStr ''look'',
         PDict [(PStr ''theme'', PStr ''dark''), (PStr ''image'', PStr ''logo.png''),
                (PStr ''message'', PStr ''Hi'')]),
        (PStr ''page'', PDict [(PStr ''lang'', PStr ''en''), (PStr ''title'', PStr ''Start'')]),
        (PStr ''search'', PDict [(PStr ''placeholder'', PStr ''Find'')]),
        (PStr ''sections'', PDict [(PStr ''A'', PDict [])])]"

definition no_font_env :: env where
  "no_font_env = sample_env\<lparr>yaml_safe_load := (\<lambda>text. Inr no_font_config)\<rparr>"

text \<open>The blocks of the three sample sections, and a variant whose second link has no \<^verbatim>\<open>url\<close>.\<close>

definition sample_block_A :: string where
  "sample_block_A =
     section_head (\<lambda>v. ''o'') (PStr ''A'')
     @ link_item (\<lambda>v. ''o'') (PStr ''i1'') (PStr ''u1'') (PStr ''x'') @ section_foot"

definition sample_block_B :: string where
  "sample_block_B =
     section_head (\<lambda>v. ''o'') (PStr ''B'')
     @ link_item (\<lambda>v. ''o'') (PStr ''i2'') (PStr ''u2'') (PStr ''y'') @ section_foot"

definition sample_block_C :: string where
  "sample_block_C = section_head (\<lambda>v. ''o'') (PStr ''C'') @ section_foot"




text \<open>The sample configuration with a list where the sections mapping belongs.\<close>

definition list_sections_config :: pyval where
  "list_sections_config =
     PDict
       [(PStr ''look'', sample_look),
        (PStr ''page'', PDict [(PStr ''lang'', PStr ''en''), (PStr ''title'', PStr ''Start'')]),
        (PStr ''search'', PDict [(PStr ''placeholder'', PStr ''Find'')]),
        (PStr ''sections'', PList [])]"

definition list_sections_env :: env where
  "list_sections_env = sample_env\<lparr>yaml_safe_load := (\<lambda>text. Inr list_sections_config)\<rparr>"


text \<open>The sample configuration with the text of a placeholder token as page title.\<close>

definition leak_config :: pyval where
  "leak_config =
     PDict
       [(PStr ''look'', sample_look),
        (PStr ''page'', PDict [(PStr ''lang'', PStr ''en''), (PStr ''title'', PStr ''BUILDER:LANG'')]),
        (PStr ''search'', PDict [(PStr ''placeholder'', PStr ''Find'')]),
        (PStr ''sections'', PDict [(PStr ''A'', PDict [])])]"

definition leak_env :: env where
  "leak_env = sample_env\<lparr>yaml_safe_load := (\<lambda>text. Inr leak_config)\<rparr>"




definition int_title_config :: pyval where
  "int_title_config =
     PDict
       [(PStr ''look'', sample_look),
        (PStr ''page'', PDict [(PStr ''lang'', PStr ''en''), (PStr ''title'', PInt 7)]),
        (PStr ''search'', PDict [(PStr ''placeholder'', PStr ''Find'')]),
        (PStr ''sections'', PDict [(PStr ''A'', PDict [])])]"

definition int_title_env :: env where
  "int_title_env = sample_env\<lparr>yaml_safe_load := (\<lambda>text. Inr int_title_config)\<rparr>"

section \<open>Properties\<close>

subsection \<open>Base64\<close>

lemma b64char_value: "i < 64 \<Longrightarrow> b64value (b64char i) = Some i"
  unfolding b64value_def b64char_def Let_def by (simp; arith)

lemma b64char_not_pad: "i < 64 \<Longrightarrow> b64char i \<noteq> CHR ''=''"
proof
  assume "i < 64" and "b64char i = CHR ''=''"
  then have "b64value (CHR ''='') = Some i"
    using b64char_value by metis
  then show False
    by (simp add: b64value_def)
qed

lemma byte_bound: "(of_char (c::char) :: nat) < 256"
proof -
  have "(of_char c :: nat) = of_char (char_of (of_char c :: nat))"
    by simp
  also have "\<dots> = (of_char c :: nat) mod 256"
    by (simp only: of_char_of)
  finally have "(of_char c :: nat) = of_char c mod 256" .
  then show ?thesis
    by (metis mod_less_divisor zero_less_numeral)
qed

lemma hi_nibble: "(b::nat) < 256 \<Longrightarrow> b div 16 < 16"
  by arith

lemma hi_pair: "(c::nat) < 256 \<Longrightarrow> c div 64 < 4"
  by arith

lemma join1: "a div 4 * 4 + (a mod 4 * 16) div 16 = (a::nat)"
  by simp

lemma join2: "(b::nat) < 256 \<Longrightarrow> a div 4 * 4 + (a mod 4 * 16 + b div 16) div 16 = (a::nat)"
  using hi_nibble[of b] by simp

lemma join3:
  assumes "(b::nat) < 256" and "(c::nat) < 256"
  shows "(a mod 4 * 16 + b div 16) mod 16 * 16 + (b mod 16 * 4 + c div 64) div 4 = b"
proof -
  have "(a mod 4 * 16 + b div 16) mod 16 = b div 16"
    using hi_nibble[OF assms(1)] by simp
  moreover have "(b mod 16 * 4 + c div 64) div 4 = b mod 16"
    using hi_pair[OF assms(2)] by simp
  ultimately show ?thesis by simp
qed

lemma join3_padded:
  assumes "(b::nat) < 256"
  shows "(a mod 4 * 16 + b div 16) mod 16 * 16 + (b mod 16 * 4) div 4 = b"
proof -
  have "(a mod 4 * 16 + b div 16) mod 16 = b div 16"
    using hi_nibble[OF assms(1)] by simp
  then show ?thesis by simp
qed

lemma join4:
  assumes "(c::nat) < 256"
  shows "(b mod 16 * 4 + c div 64) mod 4 * 64 + c mod 64 = c"
proof -
  have "(b mod 16 * 4 + c div 64) mod 4 = c div 64"
    using hi_pair[OF assms] by simp
  then show ?thesis by simp
qed

lemma idx_bounds:
  "(a::nat) < 256 \<Longrightarrow> a div 4 < 64"
  "a mod 4 * 16 < (64::nat)"
  "(b::nat) < 256 \<Longrightarrow> a mod 4 * 16 + b div 16 < 64"
  "b mod 16 * 4 < (64::nat)"
  "(c::nat) < 256 \<Longrightarrow> b mod 16 * 4 + c div 64 < 64"
  "c mod 64 < (64::nat)"
  by arith+

text \<open>Decoding undoes encoding, for every byte string.\<close>

lemma b64_roundtrip: "b64decode (b64encode bytes) = Some bytes"
proof (induction bytes rule: b64encode.induct)
  case 1
  show ?case by simp
next
  case (2 a)
  show ?case
    using join1[of "of_char a"]
    by (simp add: b64char_value b64char_not_pad idx_bounds byte_bound)
next
  case (3 a b)
  show ?case
    using join2[OF byte_bound[of b], of "of_char a"]
      join3_padded[OF byte_bound[of b], of "of_char a"]
    by (simp add: b64char_value b64char_not_pad idx_bounds byte_bound)
next
  case (4 a b c rest)
  then show ?case
    using join2[OF byte_bound[of b], of "of_char a"]
      join3[OF byte_bound[of b] byte_bound[of c], of "of_char a"]
      join4[OF byte_bound[of c], of "of_char b"]
    by (simp add: b64char_value b64char_not_pad idx_bounds byte_bound)
qed

lemma sample_image_encoded: "b64encode ''Man'' = ''TWFu''"
  by code_simp

subsection \<open>The image inliner\<close>

text \<open>
  C8.  For an image file that exists and whose type \<^verbatim>\<open>mimetypes.guess_type\<close> recognises,
  \<open>image_to_data_url\<close> returns \<^verbatim>\<open>data:<mimetype>;base64,<payload>\<close>, the payload decodes
  to exactly the bytes of the file, and it is not empty unless the file is.  With the
  type \<^verbatim>\<open>image/png\<close> the result is \<^verbatim>\<open>data:image/png;base64,<payload>\<close>.
\<close>

theorem image_to_data_url_recognised:
  assumes "files (fs E) p = Some bytes" and "guess_type E p = Some mimetype"
  shows "image_to_data_url E p = Inr (''data:'' @ mimetype @ '';base64,'' @ b64encode bytes)
         \<and> b64decode (b64encode bytes) = Some bytes
         \<and> (bytes \<noteq> [] \<longrightarrow> b64encode bytes \<noteq> [])"
proof -
  have "image_to_data_url E p = Inr (''data:'' @ mimetype @ '';base64,'' @ b64encode bytes)"
    using assms by (simp add: image_to_data_url_def read_file_def)
  moreover have "bytes \<noteq> [] \<longrightarrow> b64encode bytes \<noteq> []"
    by (cases bytes rule: b64encode.cases) simp_all
  ultimately show ?thesis
    using b64_roundtrip[of bytes] by blast
qed

theorem image_to_data_url_recognised_witness:
  "image_to_data_url sample_env (PathOf ''logo.png'') = Inr ''data:image/png;base64,TWFu''
   \<and> b64decode ''TWFu'' = Some ''Man''"
proof -
  have f: "files (fs sample_env) (PathOf ''logo.png'') = Some ''Man''"
    by code_simp
  have g: "guess_type sample_env (PathOf ''logo.png'') = Some ''image/png''"
    by code_simp
  show ?thesis
    using image_to_data_url_recognised[OF f g, unfolded sample_image_encoded] by simp
qed

text \<open>
  C9.  For an image file that exists and whose type is not recognised, the result
  begins with the literal text \<^verbatim>\<open>data:None;base64,\<close>: the absent type is written as the
  word \<^verbatim>\<open>None\<close>, and no error is raised.
\<close>

theorem image_to_data_url_unrecognised:
  assumes "files (fs E) p = Some bytes" and "guess_type E p = None"
  shows "image_to_data_url E p = Inr (''data:None;base64,'' @ b64encode bytes)"
  using assms by (simp add: image_to_data_url_def read_file_def)

theorem image_to_data_url_unrecognised_witness:
  "image_to_data_url (sample_env\<lparr>guess_type := (\<lambda>p. None)\<rparr>) (PathOf ''logo.png'')
   = Inr ''data:None;base64,TWFu''"
proof -
  have f: "files (fs (sample_env\<lparr>guess_type := (\<lambda>p. None)\<rparr>)) (PathOf ''logo.png'') = Some ''Man''"
    by code_simp
  have g: "guess_type (sample_env\<lparr>guess_type := (\<lambda>p. None)\<rparr>) (PathOf ''logo.png'') = None"
    by code_simp
  show ?thesis
    using image_to_data_url_unrecognised[OF f g, unfolded sample_image_encoded] by simp
qed

subsection \<open>Exit statuses\<close>



subsection \<open>The configuration guards\<close>


text \<open>
  The font block has no guard of its own key: when \<^verbatim>\<open>look\<close> is a mapping with a theme and
  without a font, the block raises \<^verbatim>\<open>KeyError\<close> and prints nothing.
\<close>

lemma get_font_without_font:
  assumes "py_getitem config ''look'' = Inr look" and "is_dict look"
    and "py_contains ''theme'' look = Inr True" and "py_contains ''font'' look = Inr False"
  shows "get_font E config = ([], Inl (Raise (KeyError ''font'')))"
proof -
  obtain kvs where look: "look = PDict kvs"
    using assms(2) by (cases look) simp_all
  have "map_of kvs (PStr ''font'') = None"
    using assms(4) by (simp add: look map_of_eq_None_iff)
  then have "py_getitem2 config ''look'' ''font'' = Inl (KeyError ''font'')"
    using assms(1) by (simp add: py_getitem2_def bind_exn_def look)
  then show ?thesis
    using assms(1,3)
    by (simp add: get_font_def require_key_def bind_exn_def ret_def then_do_def py_def)
qed

text \<open>
  C1, at a configuration that lacks only \<^verbatim>\<open>look/font\<close>.  The guard before the font block
  asks for \<^verbatim>\<open>"theme"\<close>, so the run reaches \<^verbatim>\<open>config["look"]["font"]\<close> and dies of an uncaught
  \<^verbatim>\<open>KeyError\<close>; it does not print the configuration-error message and does not exit with
  status 3.
\<close>

theorem missing_font_key_is_uncaught:
  "\<not> has_key_path no_font_config [''look'', ''font'']
   \<and> ending (build no_font_env) = Stopped (Raise (KeyError ''font''))
   \<and> printed (build no_font_env) = [''Using theme:\<newline>'' @ tab @ ''dark (p)'']"
  by code_simp


subsection \<open>The section renderer\<close>

lemma links_loop_acc:
  "links_loop f ls acc = (case links_loop f ls [] of Inl e \<Rightarrow> Inl e | Inr h \<Rightarrow> Inr (acc @ h))"
proof (induction ls arbitrary: acc)
  case Nil
  show ?case by simp
next
  case (Cons l ls)
  obtain link_name link_data where l: "l = (link_name, link_data)"
    by (cases l)
  show ?case
    unfolding l
    by (simp add: Cons.IH[of "acc @ _"] Cons.IH[of "link_item _ _ _ _"]
          split: sum.splits)
qed

lemma section_block_step:
  "sections_loop f ((section_name, links) # rest) acc n =
     (case section_block f (section_name, links) of
        Inl e \<Rightarrow> Inl e
      | Inr b \<Rightarrow>
          sections_loop f rest (acc @ b @ (if odd (n + 1) then separator else [])) (n + 1))"
proof (cases "py_items links")
  case (Inl e)
  then show ?thesis by (simp add: section_block_def bind_exn_def)
next
  case (Inr items)
  have parity: "((n + 1) mod 2 = 1) = odd (n + 1)"
    by presburger
  have "sections_loop f ((section_name, links) # rest) acc n =
     (case links_loop f items (acc @ section_head f section_name) of
        Inl e \<Rightarrow> Inl e
      | Inr html \<Rightarrow>
          (if odd (n + 1)
           then sections_loop f rest (html @ section_foot @ separator) (n + 1)
           else sections_loop f rest (html @ section_foot) (n + 1)))"
    by (simp only: sections_loop.simps Inr sum.case parity)
  also have "\<dots> =
     (case section_block f (section_name, links) of
        Inl e \<Rightarrow> Inl e
      | Inr b \<Rightarrow>
          sections_loop f rest (acc @ b @ (if odd (n + 1) then separator else [])) (n + 1))"
    using Inr
    by (cases "links_loop f items []")
       (simp_all add: section_block_def bind_exn_def
          links_loop_acc[of f items "acc @ section_head f section_name"]
          links_loop_acc[of f items "section_head f section_name"])
  finally show ?thesis .
qed

lemma joined_Cons:
  "concat (map (\<lambda>i. (b # bs) ! i @ (if odd (n + i + 1) then s else [])) [0..<length (b # bs)])
   = b @ (if odd (n + 1) then s else [])
     @ concat (map (\<lambda>i. bs ! i @ (if odd (Suc n + i + 1) then s else [])) [0..<length bs])"
proof -
  have "[0..<length (b # bs)] = 0 # map Suc [0..<length bs]"
    by (simp only: length_Cons map_Suc_upt upt_conv_Cons[OF zero_less_Suc])
  then show ?thesis
    by (simp add: comp_def)
qed

lemma sections_loop_blocks:
  "sections_loop f secs acc n = Inr html \<longleftrightarrow>
     (\<exists>blocks. map (section_block f) secs = map Inr blocks
        \<and> html = acc @ concat (map (\<lambda>i. blocks ! i @ (if odd (n + i + 1) then separator else []))
                                [0..<length blocks]))"
proof (induction secs arbitrary: acc n)
  case Nil
  show ?case by auto
next
  case (Cons sec secs)
  obtain section_name links where sec: "sec = (section_name, links)"
    by (cases sec)
  show ?case
  proof (cases "section_block f sec")
    case (Inl e)
    have "sections_loop f (sec # secs) acc n = Inl e"
      unfolding sec section_block_step using Inl by (simp add: sec)
    moreover have "map (section_block f) (sec # secs) \<noteq> map Inr blocks" for blocks
      using Inl by (cases blocks) auto
    ultimately show ?thesis
      by simp
  next
    case (Inr b)
    have "sections_loop f (sec # secs) acc n = Inr html \<longleftrightarrow>
          sections_loop f secs (acc @ b @ (if odd (n + 1) then separator else [])) (Suc n) = Inr html"
      unfolding sec section_block_step using Inr by (simp add: sec)
    also have "\<dots> \<longleftrightarrow>
      (\<exists>blocks. map (section_block f) secs = map Inr blocks
        \<and> html = (acc @ b @ (if odd (n + 1) then separator else []))
             @ concat (map (\<lambda>i. blocks ! i @ (if odd (Suc n + i + 1) then separator else []))
                        [0..<length blocks]))"
      by (rule Cons.IH)
    also have "\<dots> \<longleftrightarrow>
      (\<exists>blocks. map (section_block f) (sec # secs) = map Inr blocks
        \<and> html = acc @ concat (map (\<lambda>i. blocks ! i @ (if odd (n + i + 1) then separator else []))
                                [0..<length blocks]))"
      (is "?L \<longleftrightarrow> ?R")
    proof
      assume ?L
      then obtain blocks where bl: "map (section_block f) secs = map Inr blocks"
        and h: "html = (acc @ b @ (if odd (n + 1) then separator else []))
             @ concat (map (\<lambda>i. blocks ! i @ (if odd (Suc n + i + 1) then separator else []))
                        [0..<length blocks])"
        by blast
      have "map (section_block f) (sec # secs) = map Inr (b # blocks)"
        using bl Inr by simp
      moreover have "html = acc @ concat (map (\<lambda>i. (b # blocks) ! i @ (if odd (n + i + 1) then separator else []))
                                [0..<length (b # blocks)])"
        unfolding joined_Cons h by simp
      ultimately show ?R by blast
    next
      assume ?R
      then obtain blocks where bl: "map (section_block f) (sec # secs) = map Inr blocks"
        and h: "html = acc @ concat (map (\<lambda>i. blocks ! i @ (if odd (n + i + 1) then separator else []))
                                [0..<length blocks])"
        by blast
      from bl Inr obtain bs where blocks: "blocks = b # bs"
        and bs: "map (section_block f) secs = map Inr bs"
        by (cases blocks) auto
      have "html = (acc @ b @ (if odd (n + 1) then separator else []))
             @ concat (map (\<lambda>i. bs ! i @ (if odd (Suc n + i + 1) then separator else []))
                        [0..<length bs])"
        unfolding h blocks joined_Cons by simp
      with bs show ?L by blast
    qed
    finally show ?thesis .
  qed
qed

text \<open>
  C3.  The rendered sections are the blocks of the sections in order, and the extra
  separator block \<^verbatim>\<open><div class="sep"></div>\<close> with its newline stands immediately after the
  block at the 1-based position \<open>i + 1\<close> exactly when that position is odd: once after
  every odd-positioned section, never after an even-positioned one.  The rendering
  succeeds exactly when every block does.
\<close>

theorem separator_after_odd_sections:
  \<open>render_sections to_text (PDict secs) = Inr html \<longleftrightarrow>
     (\<exists>blocks. map (section_block to_text) secs = map Inr blocks
        \<and> html = concat (map (\<lambda>i. blocks ! i
                                   @ (if odd (i + 1) then ''<div class="sep"></div>\<newline>'' else []))
                          [0..<length blocks]))\<close>
  using sections_loop_blocks[of to_text secs "[]" 0 html, unfolded separator_def]
  by (simp add: render_sections_def)

theorem separator_after_odd_sections_witness:
  \<open>render_sections (\<lambda>v. ''o'') sample_sections
   = Inr (''<section>\<newline>'' @ [CHR 0x09] @ ''<h3>A</h3>\<newline>'' @ [CHR 0x09]
          @ ''<div class="sep"></div>\<newline>'' @ [CHR 0x09] @ ''<ul>\<newline>'' @ [CHR 0x09, CHR 0x09]
          @ ''<li data-icon="i1"><a href="u1">x</a></li>\<newline>'' @ [CHR 0x09]
          @ ''</ul>\<newline></section>\<newline>''
          @ ''<div class="sep"></div>\<newline>''
          @ ''<section>\<newline>'' @ [CHR 0x09] @ ''<h3>B</h3>\<newline>'' @ [CHR 0x09]
          @ ''<div class="sep"></div>\<newline>'' @ [CHR 0x09] @ ''<ul>\<newline>'' @ [CHR 0x09, CHR 0x09]
          @ ''<li data-icon="i2"><a href="u2">y</a></li>\<newline>'' @ [CHR 0x09]
          @ ''</ul>\<newline></section>\<newline>''
          @ ''<section>\<newline>'' @ [CHR 0x09] @ ''<h3>C</h3>\<newline>'' @ [CHR 0x09]
          @ ''<div class="sep"></div>\<newline>'' @ [CHR 0x09] @ ''<ul>\<newline>'' @ [CHR 0x09]
          @ ''</ul>\<newline></section>\<newline>''
          @ ''<div class="sep"></div>\<newline>'')\<close>
proof -
  have blocks: "map (section_block (\<lambda>v. ''o''))
      [(PStr ''A'', PDict [(PStr ''x'', PDict [(PStr ''icon'', PStr ''i1''), (PStr ''url'', PStr ''u1'')])]),
        (PStr ''B'', PDict [(PStr ''y'', PDict [(PStr ''icon'', PStr ''i2''), (PStr ''url'', PStr ''u2'')])]),
        (PStr ''C'', PDict [])]
      = map Inr [sample_block_A, sample_block_B, sample_block_C]"
    by (simp add: section_block_def bind_exn_def sample_block_A_def sample_block_B_def
          sample_block_C_def)
  have idx: "[0..<length [sample_block_A, sample_block_B, sample_block_C]] = [0, 1, 2]"
    by (simp add: upt_rec)
  show ?thesis
    unfolding sample_sections_def
    using separator_after_odd_sections[THEN iffD2, OF exI, OF conjI, OF blocks refl]
    unfolding idx
    by (simp add: sample_block_A_def sample_block_B_def sample_block_C_def section_head_def
          section_foot_def link_item_def tab_def py_format_def)
qed

lemma dict_getitem_absent:
  "is_dict d \<Longrightarrow> py_contains k d = Inr False \<Longrightarrow> py_getitem d k = Inl (KeyError k)"
  by (cases d) (auto simp: map_of_eq_None_iff[symmetric] split: option.splits)


lemma dict_getitem_present:
  "py_getitem d k = Inr v \<Longrightarrow> py_contains k d = Inr True"
  by (cases d) (auto split: option.splits dest: map_of_SomeD intro: rev_image_eqI)














subsection \<open>The stylesheet compiler\<close>

text \<open>
  C7.  The source handed to the compiler is the theme text, a newline, the font text, a
  newline and the base text, in that order.  When the compiler reports an error the step
  prints the heading and the error text and exits with the status of a compilation
  failure, which is 7; a run that ends so leaves the file system as it found it.
\<close>

theorem compile_styles_contract:
  assumes "files (fs E) theme_file_path = Some theme_text"
    and "files (fs E) font_file_path = Some font_text"
    and "files (fs E) style_path = Some base_text"
  shows "compile_styles E theme_file_path font_file_path =
           (case sass_compile E (theme_text @ ''\<newline>'' @ font_text @ ''\<newline>'' @ base_text) of
              Inl error_text \<Rightarrow>
                ([''\<newline>Failed to compile your theme/font:'', error_text], Inl (Exit CompileFailed))
            | Inr compiled_css \<Rightarrow> ([], Inr compiled_css))
         \<and> exit_status CompileFailed = 7
         \<and> (ending (build E) = Stopped (Exit CompileFailed) \<longrightarrow> fs_after (build E) = fs E)"
proof -
  have "compile_styles E theme_file_path font_file_path =
           (case sass_compile E (theme_text @ ''\<newline>'' @ font_text @ ''\<newline>'' @ base_text) of
              Inl error_text \<Rightarrow>
                ([''\<newline>Failed to compile your theme/font:'', error_text], Inl (Exit CompileFailed))
            | Inr compiled_css \<Rightarrow> ([], Inr compiled_css))"
    using assms
    by (simp add: compile_styles_def read_file_def then_do_def py_def style_content_def
          exit_with_def ret_def split: sum.splits)
  moreover have "ending (build E) = Stopped (Exit CompileFailed) \<longrightarrow> fs_after (build E) = fs E"
    by (auto simp: build_def split: prod.splits sum.splits)
  ultimately show ?thesis by simp
qed

theorem compile_styles_contract_witness:
  "compile_styles (sample_env\<lparr>sass_compile := (\<lambda>source. Inl ''bad'')\<rparr>)
      (Join (Join (Join root_dir ''themes'') ''dark'') ''theme.scss'')
      (Join (Join (Join root_dir ''fonts'') ''mono'') ''font.scss'')
     = ([''\<newline>Failed to compile your theme/font:'', ''bad''], Inl (Exit CompileFailed))
   \<and> ending (build (sample_env\<lparr>sass_compile := (\<lambda>source. Inl ''bad'')\<rparr>)) = Stopped (Exit CompileFailed)
   \<and> fs_after (build (sample_env\<lparr>sass_compile := (\<lambda>source. Inl ''bad'')\<rparr>)) = sample_fs"
proof -
  let ?E = "sample_env\<lparr>sass_compile := (\<lambda>source. Inl ''bad'')\<rparr>"
  have f1: "files (fs ?E) (Join (Join (Join root_dir ''themes'') ''dark'') ''theme.scss'') = Some ''a''"
    by code_simp
  have f2: "files (fs ?E) (Join (Join (Join root_dir ''fonts'') ''mono'') ''font.scss'') = Some ''b''"
    by code_simp
  have f3: "files (fs ?E) style_path = Some ''c''"
    by code_simp
  have e: "ending (build ?E) = Stopped (Exit CompileFailed)"
    by code_simp
  have s: "fs ?E = sample_fs"
    by (simp add: sample_env_def)
  show ?thesis
    using compile_styles_contract[OF f1 f2 f3] e s by simp
qed


subsection \<open>Presence and types of configuration values\<close>

lemma then_do_stop:
  "snd (then_do m g) = Inl s \<Longrightarrow> snd m = Inl s \<or> (\<exists>x. snd m = Inr x \<and> snd (g x) = Inl s)"
  by (cases m; cases "snd m") (auto simp: then_do_def split: prod.splits)

lemma has_key_path1:
  "has_key_path v [a] \<Longrightarrow> py_contains a v = Inr True"
  by (cases v) (auto split: option.splits dest: map_of_SomeD intro: rev_image_eqI)

lemma has_key_path2:
  "has_key_path v [a, b] \<Longrightarrow> \<exists>w. py_getitem v a = Inr w \<and> py_contains b w = Inr True"
  by (cases v) (auto split: option.splits simp: has_key_path1)

lemma require_key_found:
  "container = Inr w \<Longrightarrow> py_contains k w = Inr True \<Longrightarrow> require_key k container name = ret ()"
  by (simp add: require_key_def bind_exn_def)

lemma require_key1:
  "has_key_path v [a] \<Longrightarrow> require_key a (Inr v) name = ret ()"
  by (simp add: require_key_found has_key_path1)

lemma require_key2:
  "has_key_path v [a, b] \<Longrightarrow> require_key b (py_getitem v a) name = ret ()"
  using has_key_path2[of v a b] by (auto simp: require_key_found)

lemma ret_then_do: "then_do (ret x) g = g x"
  by (cases "g x") (simp add: then_do_def ret_def)

lemma py_Inr: "py (Inr x) = ret x"
  by (simp add: py_def ret_def)

lemma stop_simps:
  "snd (py r) = Inl (Exit f) \<longleftrightarrow> False"
  "snd (ret x) = Inl (Exit f) \<longleftrightarrow> False"
  "snd (say line) = Inl (Exit f) \<longleftrightarrow> False"
  "snd (exit_with lines f') = Inl (Exit f) \<longleftrightarrow> f' = f"
  by (auto simp: py_def ret_def say_def exit_with_def split: sum.splits)

lemma check_imports_status:
  "snd (check_imports E) = Inl (Exit f) \<Longrightarrow> exit_status f = 1"
  by (auto simp: check_imports_def stop_simps split: if_splits)

lemma check_sources_status:
  "snd (check_sources E) = Inl (Exit f) \<Longrightarrow> is_file (fs E) config_path \<Longrightarrow> exit_status f = 2"
  by (auto simp: check_sources_def stop_simps split: if_splits)

lemma get_theme_status:
  assumes "snd (get_theme E config) = Inl (Exit f)" and "has_key_path config [''look'', ''theme'']"
  shows "exit_status f = 4"
  using assms(1) unfolding get_theme_def require_key2[OF assms(2)] ret_then_do
  by (auto dest!: then_do_stop simp: stop_simps Let_def split: pyval.splits if_splits)

lemma get_font_status:
  assumes "snd (get_font E config) = Inl (Exit f)" and "has_key_path config [''look'', ''theme'']"
  shows "exit_status f = 5"
  using assms(1) unfolding get_font_def require_key2[OF assms(2)] ret_then_do
  by (auto dest!: then_do_stop simp: stop_simps Let_def split: pyval.splits if_splits)

lemma get_image_status:
  assumes "snd (get_image E config) = Inl (Exit f)" and "has_key_path config [''look'', ''image'']"
  shows "exit_status f = 6"
  using assms(1) unfolding get_image_def require_key2[OF assms(2)] ret_then_do
  by (auto dest!: then_do_stop simp: stop_simps Let_def split: pyval.splits if_splits)

lemma get_message_status:
  assumes "snd (get_message E config) = Inl (Exit f)" and "has_key_path config [''look'', ''message'']"
  shows False
  using assms(1) unfolding get_message_def require_key2[OF assms(2)] ret_then_do
  by (auto dest!: then_do_stop simp: stop_simps)

lemma get_page_status:
  assumes "snd (get_page config) = Inl (Exit f)" and "has_key_path config [''page'']"
    and "has_key_path config [''page'', ''lang'']" and "has_key_path config [''page'', ''title'']"
  shows False
  using assms(1)
  unfolding get_page_def require_key1[OF assms(2)] require_key2[OF assms(3)]
    require_key2[OF assms(4)] ret_then_do
  by (auto dest!: then_do_stop simp: stop_simps)

lemma get_search_status:
  assumes "snd (get_search config) = Inl (Exit f)" and "has_key_path config [''search'']"
    and "has_key_path config [''search'', ''placeholder'']"
  shows False
  using assms(1)
  unfolding get_search_def require_key1[OF assms(2)] require_key2[OF assms(3)] ret_then_do
  by (auto dest!: then_do_stop simp: stop_simps)

lemma compile_styles_status:
  assumes "snd (compile_styles E tp fp) = Inl (Exit f)"
  shows "exit_status f = 7"
  using assms unfolding compile_styles_def
  by (auto dest!: then_do_stop simp: stop_simps split: sum.splits)

lemma prepare_sections_status:
  assumes "snd (prepare_sections E config) = Inl (Exit f)" and "has_key_path config [''sections'']"
    and "py_getitem config ''sections'' = Inr (PDict secs)"
  shows False
  using assms(1) unfolding prepare_sections_def require_key1[OF assms(2)] assms(3) py_Inr ret_then_do
  by (auto dest!: then_do_stop simp: stop_simps)

lemma convert_image_status:
  assumes "snd (convert_image E p) = Inl (Exit f)"
  shows False
  using assms unfolding convert_image_def
  by (auto dest!: then_do_stop simp: stop_simps)


lemma compose_status:
  assumes "snd (compose E) = Inl (Exit f)"
    and "files (fs E) config_path = Some config_text"
    and "yaml_safe_load E config_text = Inr config"
    and "list_all (has_key_path config) required_key_paths"
    and "py_getitem config ''sections'' = Inr (PDict secs)"
  shows "exit_status f \<noteq> 3"
proof -
  have keys:
    "has_key_path config [''look'']" "has_key_path config [''look'', ''theme'']"
    "has_key_path config [''look'', ''image'']" "has_key_path config [''look'', ''message'']"
    "has_key_path config [''page'']" "has_key_path config [''page'', ''lang'']"
    "has_key_path config [''page'', ''title'']" "has_key_path config [''search'']"
    "has_key_path config [''search'', ''placeholder'']" "has_key_path config [''sections'']"
    using assms(4) by (simp_all add: required_key_paths_def)
  have cfile: "is_file (fs E) config_path"
    using assms(2) by (simp add: is_file_def)
  have rc: "read_config E = ret config"
    using assms(2,3) by (simp add: read_config_def read_file_def bind_exn_def py_Inr)
  show ?thesis
    using assms(1)
    unfolding compose_def rc require_key1[OF keys(1)] ret_then_do
    by (auto dest!: then_do_stop
          dest: check_imports_status check_sources_status[OF _ cfile]
            get_theme_status[OF _ keys(2)] get_font_status[OF _ keys(2)]
            get_image_status[OF _ keys(3)] get_message_status[OF _ keys(4)]
            get_page_status[OF _ keys(5,6,7)] get_search_status[OF _ keys(8,9)]
            compile_styles_status prepare_sections_status[OF _ keys(10) assms(5)]
            convert_image_status
          simp: stop_simps)
qed

text \<open>
  A configuration with every required key-path present whose \<^verbatim>\<open>sections\<close> value is a
  list is refused with the configuration-error exit.
\<close>

theorem sections_type_is_checked:
  \<open>list_all (has_key_path list_sections_config) required_key_paths
   \<and> ending (build list_sections_env) = Stopped (Exit ConfigError)
   \<and> last (printed (build list_sections_env)) =
       ''Key "sections" exists, but is not the right type (should be a dictionary).\<newline>Refer to the documentation for instructions on how to correctly create a config file.''\<close>
  by code_simp

subsection \<open>The substitution pass\<close>

lemma replace_scan_match:
  "old \<noteq> [] \<Longrightarrow> replace_scan old new (old @ rest) = new @ replace_scan old new rest"
  by (cases old) simp_all

lemma marker_free_no_match:
  assumes "marker_free (c # cs)" and "prefix marker old"
  shows "\<not> prefix old (c # cs @ rest)"
proof
  assume "prefix old (c # cs @ rest)"
  with assms(2) have "prefix marker ((c # cs) @ rest)"
    by (metis prefix_order.order_trans append_Cons)
  moreover have "prefix (c # cs) ((c # cs) @ rest)"
    by simp
  ultimately have "prefix marker (c # cs) \<or> prefix (c # cs) marker"
    by (rule prefix_same_cases)
  with assms(1) show False
    by simp
qed

lemma replace_scan_skip:
  "marker_free l \<Longrightarrow> prefix marker old \<Longrightarrow>
     replace_scan old new (l @ rest) = l @ replace_scan old new rest"
proof (induction l)
  case Nil
  show ?case by simp
next
  case (Cons c cs)
  have "\<not> prefix old (c # cs @ rest)"
    using marker_free_no_match[OF Cons.prems] .
  moreover have "marker_free cs"
    using Cons.prems(1) by simp
  ultimately show ?case
    using Cons.IH Cons.prems(2) by simp
qed

lemma token_tail_free: "k \<in> set token_keys \<Longrightarrow> marker_free (''UILDER:'' @ k)"
  by (auto simp: token_keys_def marker_def)

lemma token_head_miss:
  "k \<in> set token_keys \<Longrightarrow> k' \<in> set token_keys \<Longrightarrow> k \<noteq> k' \<Longrightarrow>
     \<not> prefix (''BUILDER:'' @ k') (''BUILDER:'' @ k @ rest)"
  by (auto simp: token_keys_def)

lemma marker_prefix_token: "prefix marker (''BUILDER:'' @ k)"
  by (simp add: marker_def)

lemma replace_scan_other_token:
  assumes "k \<in> set token_keys" and "k' \<in> set token_keys" and "k \<noteq> k'"
  shows "replace_scan (''BUILDER:'' @ k') new ((''BUILDER:'' @ k) @ rest)
         = (''BUILDER:'' @ k) @ replace_scan (''BUILDER:'' @ k') new rest"
proof -
  have "replace_scan (''BUILDER:'' @ k') new (CHR ''B'' # (''UILDER:'' @ k) @ rest)
        = CHR ''B'' # replace_scan (''BUILDER:'' @ k') new ((''UILDER:'' @ k) @ rest)"
    using token_head_miss[OF assms, of rest] by simp
  also have "replace_scan (''BUILDER:'' @ k') new ((''UILDER:'' @ k) @ rest)
        = (''UILDER:'' @ k) @ replace_scan (''BUILDER:'' @ k') new rest"
    by (rule replace_scan_skip[OF token_tail_free[OF assms(1)] marker_prefix_token])
  finally show ?thesis by simp
qed

lemma replace_flatten:
  assumes "k \<in> set token_keys"
  shows "well_cut ps \<Longrightarrow>
     replace (''BUILDER:'' @ k) v (flatten ps) = flatten (map (\<lambda>p. if p = Tok k then Lit v else p) ps)"
proof (induction ps rule: well_cut.induct)
  case 1
  show ?case by (simp add: replace_def)
next
  case (2 l ps)
  then show ?case
    using replace_scan_skip[OF _ marker_prefix_token, of l k v "flatten ps"]
    by (simp add: replace_def)
next
  case (3 k' ps)
  show ?case
  proof (cases "k' = k")
    case True
    then show ?thesis
      using 3 replace_scan_match[of "''BUILDER:'' @ k" v "flatten ps"]
      by (simp add: replace_def)
  next
    case False
    then show ?thesis
      using 3 replace_scan_other_token[of k' k v "flatten ps"] assms
      by (simp add: replace_def)
  qed
qed

lemma well_cut_replace:
  "marker_free v \<Longrightarrow> well_cut ps \<Longrightarrow> well_cut (map (\<lambda>p. if p = Tok k then Lit v else p) ps)"
  by (induction ps rule: well_cut.induct) simp_all


lemma swap_piece_none: "map (swap_piece {} m) ps = ps"
proof (rule map_idI)
  fix p
  show "swap_piece {} m p = p"
    by (cases p) simp_all
qed

lemma substitute_pieces:
  assumes "distinct (map fst m)"
  shows "well_cut ps \<Longrightarrow> set order \<subseteq> set m \<Longrightarrow>
     (\<forall>(k, v)\<in>set order. k \<in> set token_keys \<and> (\<exists>s. v = PStr s \<and> marker_free s)) \<Longrightarrow>
     substitute order (flatten ps) = Inr (flatten (map (swap_piece (fst ` set order) m) ps))"
proof (induction order arbitrary: ps)
  case Nil
  show ?case
    by (simp add: swap_piece_none)
next
  case (Cons kv order)
  obtain k v where kv: "kv = (k, v)"
    by (cases kv)
  obtain s where v: "v = PStr s" and s: "marker_free s" and k: "k \<in> set token_keys"
    using Cons.prems(3) kv by auto
  have m: "map_of m k = Some (PStr s)"
    using Cons.prems(2) assms kv v by simp
  let ?ps = "map (\<lambda>p. if p = Tok k then Lit s else p) ps"
  have "substitute (kv # order) (flatten ps) = substitute order (flatten ?ps)"
    using replace_flatten[OF k Cons.prems(1), of s] by (simp add: kv v)
  also have "\<dots> = Inr (flatten (map (swap_piece (fst ` set order) m) ?ps))"
    using Cons.prems by (intro Cons.IH well_cut_replace[OF s]) auto
  also have "map (swap_piece (fst ` set order) m) ?ps
      = map (swap_piece (fst ` set (kv # order)) m) ps"
  proof (rule trans[OF map_map], rule map_cong[OF refl])
    fix p
    show "(swap_piece (fst ` set order) m \<circ> (\<lambda>p. if p = Tok k then Lit s else p)) p
          = swap_piece (fst ` set (kv # order)) m p"
      using m by (cases p) (auto simp: kv)
  qed
  finally show ?case .
qed

lemma flatten_filled:
  "well_cut ps \<Longrightarrow> set token_keys \<subseteq> keys \<Longrightarrow>
     flatten (map (swap_piece keys m) ps) = fill m ps"
  by (induction ps rule: well_cut.induct) (auto split: option.splits pyval.splits)

lemma substitute_fill:
  assumes "well_cut ps" and "distinct (map fst m)" and "set order = set m"
    and "\<forall>(k, v)\<in>set m. k \<in> set token_keys \<and> (\<exists>s. v = PStr s \<and> marker_free s)"
    and "set token_keys \<subseteq> fst ` set m"
  shows "substitute order (flatten ps) = Inr (fill m ps)"
proof -
  have "substitute order (flatten ps) = Inr (flatten (map (swap_piece (fst ` set order) m) ps))"
    using assms(1,3,4) by (intro substitute_pieces[OF assms(2)]) auto
  then show ?thesis
    using flatten_filled[OF assms(1), of "fst ` set order" m] assms(3,5) by simp
qed

lemma replacement_map_shape:
  assumes "marker_free lang" "marker_free css" "marker_free title" "marker_free image_url"
    "marker_free message" "marker_free sections" "marker_free placeholder"
  shows "distinct (map fst (replacement_map (PStr lang) css (PStr title) image_url (PStr message)
            sections (PStr placeholder)))"
    and "\<forall>(k, v)\<in>set (replacement_map (PStr lang) css (PStr title) image_url (PStr message)
            sections (PStr placeholder)). k \<in> set token_keys \<and> (\<exists>s. v = PStr s \<and> marker_free s)"
    and "set token_keys \<subseteq> fst ` set (replacement_map (PStr lang) css (PStr title) image_url
            (PStr message) sections (PStr placeholder))"
  using assms by (simp_all add: replacement_map_def token_keys_def)

lemma marker_free_skip:
  "marker_free l \<Longrightarrow> sublist marker (l @ rest) \<Longrightarrow> sublist marker rest"
proof (induction l)
  case Nil
  then show ?case by simp
next
  case (Cons c cs)
  have "\<not> prefix marker (c # cs @ rest)"
    using marker_free_no_match[OF Cons.prems(1), of marker rest] by simp
  then have "sublist marker (cs @ rest)"
    using Cons.prems(2) by (simp add: sublist_Cons_right)
  moreover have "marker_free cs"
    using Cons.prems(1) by simp
  ultimately show ?case
    by (rule Cons.IH[rotated])
qed

lemma fill_marker_free:
  assumes "\<forall>(k, v)\<in>set m. k \<in> set token_keys \<and> (\<exists>s. v = PStr s \<and> marker_free s)"
    and "set token_keys \<subseteq> fst ` set m"
  shows "well_cut ps \<Longrightarrow> \<not> sublist marker (fill m ps)"
proof (induction ps rule: well_cut.induct)
  case 1
  show ?case by (simp add: marker_def)
next
  case (2 l ps)
  then show ?case
    using marker_free_skip[of l "fill m ps"] by auto
next
  case (3 k ps)
  then have "k \<in> fst ` set m"
    using assms(2) by auto
  then obtain v where kv: "map_of m k = Some v"
    by (metis not_None_eq map_of_eq_None_iff)
  then have "(k, v) \<in> set m"
    by (rule map_of_SomeD)
  then obtain s where v: "v = PStr s" and s: "marker_free s"
    using assms(1) by auto
  show ?case
    using 3 marker_free_skip[OF s, of "fill m ps"] by (auto simp: kv v)
qed

lemma token_needs_marker:
  "sublist (''BUILDER:'' @ k) t \<Longrightarrow> sublist marker t"
  unfolding marker_def by (metis sublist_append_rightI sublist_order.order_trans)

text \<open>
  C4, as the code has it.  Let the template be cut into literal pieces and placeholder
  tokens such that no literal piece and none of the seven string values contains the
  marker \<^verbatim>\<open>BUILDER:\<close> or ends with a non-empty beginning of it.  Then the substitutions
  applied in any order of the replacement map give the same text as the order of the
  script, namely the template with every token replaced by its value.
\<close>

theorem substitution_order_immaterial:
  assumes "well_cut pieces"
    and "marker_free lang" and "marker_free css" and "marker_free title"
    and "marker_free image_url" and "marker_free message" and "marker_free sections"
    and "marker_free placeholder"
    and "mset order = mset (replacement_map (PStr lang) css (PStr title) image_url (PStr message)
            sections (PStr placeholder))"
  shows "substitute order (flatten pieces)
           = substitute (replacement_map (PStr lang) css (PStr title) image_url (PStr message)
               sections (PStr placeholder)) (flatten pieces)
         \<and> substitute order (flatten pieces)
           = Inr (fill (replacement_map (PStr lang) css (PStr title) image_url (PStr message)
               sections (PStr placeholder)) pieces)"
proof -
  let ?m = "replacement_map (PStr lang) css (PStr title) image_url (PStr message) sections
              (PStr placeholder)"
  note shape = replacement_map_shape[OF assms(2-8)]
  have "set order = set ?m"
    using assms(9) by (rule mset_eq_setD)
  then have "substitute order (flatten pieces) = Inr (fill ?m pieces)"
    by (rule substitute_fill[OF assms(1) shape(1) _ shape(2,3)])
  moreover have "substitute ?m (flatten pieces) = Inr (fill ?m pieces)"
    by (rule substitute_fill[OF assms(1) shape(1) refl shape(2,3)])
  ultimately show ?thesis by simp
qed

text \<open>
  Without that condition the order matters: when the language value is the text of the
  title token, the order of the script replaces it again in the title pass, and the
  reverse order leaves it in the output.
\<close>

theorem substitution_order_matters:
  "substitute (replacement_map (PStr ''BUILDER:TITLE'') [] (PStr ''x'') [] (PStr []) [] (PStr []))
       ''BUILDER:LANG'' = Inr ''x''
   \<and> substitute (rev (replacement_map (PStr ''BUILDER:TITLE'') [] (PStr ''x'') [] (PStr []) []
                        (PStr []))) ''BUILDER:LANG'' = Inr ''BUILDER:TITLE''"
  by code_simp

theorem substitution_order_immaterial_witness:
  "substitute (rev (replacement_map (PStr ''en'') ''css'' (PStr ''t'') ''img'' (PStr ''m'') ''secs''
                      (PStr ''sp''))) (flatten sample_template)
   = substitute (replacement_map (PStr ''en'') ''css'' (PStr ''t'') ''img'' (PStr ''m'') ''secs''
                      (PStr ''sp'')) (flatten sample_template)
   \<and> substitute (rev (replacement_map (PStr ''en'') ''css'' (PStr ''t'') ''img'' (PStr ''m'') ''secs''
                      (PStr ''sp''))) (flatten sample_template)
     = Inr ''<en|css|t|img|m|sp>''"
proof -
  have w: "well_cut sample_template"
    by (simp add: sample_template_def token_keys_def marker_def)
  have v: "marker_free ''en''" "marker_free ''css''" "marker_free ''t''" "marker_free ''img''"
    "marker_free ''m''" "marker_free ''secs''" "marker_free ''sp''"
    by (simp_all add: marker_def)
  have f: "fill (replacement_map (PStr ''en'') ''css'' (PStr ''t'') ''img'' (PStr ''m'') ''secs''
                      (PStr ''sp'')) sample_template = ''<en|css|t|img|m|sp>''"
    by code_simp
  have p: "mset (rev (replacement_map (PStr ''en'') ''css'' (PStr ''t'') ''img'' (PStr ''m'')
                   ''secs'' (PStr ''sp'')))
           = mset (replacement_map (PStr ''en'') ''css'' (PStr ''t'') ''img'' (PStr ''m'')
                   ''secs'' (PStr ''sp''))"
    by simp
  show ?thesis
    using substitution_order_immaterial[OF w v p] unfolding f .
qed


subsection \<open>The complete run\<close>

lemma then_do_value: "snd m = Inr x \<Longrightarrow> snd (then_do m g) = snd (g x)"
  by (cases m) (auto simp: then_do_def split: prod.splits)

lemma snd_say_then_do: "snd (then_do (say line) g) = snd (g ())"
  by (rule then_do_value) (simp add: say_def)

lemma snd_ret: "snd (ret x) = Inr x"
  by (simp add: ret_def)

lemma getitem2_guard:
  assumes "py_getitem2 config a b = Inr v"
  shows "require_key b (py_getitem config a) name = ret ()"
proof -
  obtain w where w: "py_getitem config a = Inr w" and v: "py_getitem w b = Inr v"
    using assms by (cases "py_getitem config a") (auto simp: py_getitem2_def bind_exn_def)
  show ?thesis
    using w dict_getitem_present[OF v] by (simp add: require_key_found)
qed

lemma getitem2_top:
  assumes "py_getitem2 config a b = Inr v"
  shows "require_key a (Inr config) name = ret ()"
proof -
  obtain w where w: "py_getitem config a = Inr w"
    using assms by (cases "py_getitem config a") (auto simp: py_getitem2_def bind_exn_def)
  show ?thesis
    using dict_getitem_present[OF w] by (simp add: require_key_found)
qed

lemma get_theme_value:
  assumes "py_getitem2 config ''look'' ''theme'' = Inr (PStr name)"
    and "is_dir (fs E) (Join (Join root_dir ''themes'') name)"
    and "files (fs E) (Join (Join (Join root_dir ''themes'') name) ''theme.scss'') = Some t"
  shows "snd (get_theme E config) = Inr (Join (Join (Join root_dir ''themes'') name) ''theme.scss'')"
  unfolding get_theme_def getitem2_guard[OF assms(1)] ret_then_do assms(1) py_Inr
  using assms(2,3) by (simp add: Let_def is_file_def snd_say_then_do ret_then_do snd_ret)

lemma get_font_value:
  assumes "py_getitem2 config ''look'' ''theme'' = Inr theme"
    and "py_getitem2 config ''look'' ''font'' = Inr (PStr name)"
    and "is_dir (fs E) (Join (Join root_dir ''fonts'') name)"
    and "files (fs E) (Join (Join (Join root_dir ''fonts'') name) ''font.scss'') = Some t"
  shows "snd (get_font E config) = Inr (Join (Join (Join root_dir ''fonts'') name) ''font.scss'')"
  unfolding get_font_def getitem2_guard[OF assms(1)] ret_then_do assms(2) py_Inr
  using assms(3,4) by (simp add: Let_def is_file_def snd_say_then_do ret_then_do snd_ret)

lemma get_image_value:
  assumes "py_getitem2 config ''look'' ''image'' = Inr (PStr name)"
    and "files (fs E) (PathOf name) = Some bytes"
  shows "snd (get_image E config) = Inr (PathOf name)"
  unfolding get_image_def getitem2_guard[OF assms(1)] ret_then_do assms(1) py_Inr
  using assms(2) by (simp add: Let_def is_file_def snd_say_then_do ret_then_do snd_ret)

lemma get_message_value:
  assumes "py_getitem2 config ''look'' ''message'' = Inr v"
  shows "snd (get_message E config) = Inr v"
  unfolding get_message_def getitem2_guard[OF assms(1)] ret_then_do assms(1) py_Inr
  by (simp add: snd_say_then_do ret_then_do snd_ret)

lemma get_page_value:
  assumes "py_getitem2 config ''page'' ''lang'' = Inr l"
    and "py_getitem2 config ''page'' ''title'' = Inr t"
  shows "snd (get_page config) = Inr (l, t)"
  unfolding get_page_def getitem2_top[OF assms(1)] getitem2_guard[OF assms(1)]
    getitem2_guard[OF assms(2)] ret_then_do assms py_Inr
  by (simp add: snd_ret)

lemma get_search_value:
  assumes "py_getitem2 config ''search'' ''placeholder'' = Inr v"
  shows "snd (get_search config) = Inr v"
  unfolding get_search_def getitem2_top[OF assms(1)] getitem2_guard[OF assms(1)]
    ret_then_do assms py_Inr
  by (simp add: snd_ret)

lemma compile_styles_value:
  assumes "files (fs E) tp = Some theme_text" and "files (fs E) fp = Some font_text"
    and "files (fs E) style_path = Some base_text"
    and "sass_compile E (theme_text @ ''\<newline>'' @ font_text @ ''\<newline>'' @ base_text) = Inr css"
  shows "snd (compile_styles E tp fp) = Inr css"
  using assms
  by (simp add: compile_styles_def read_file_def py_Inr ret_then_do style_content_def snd_ret)

lemma prepare_sections_value:
  assumes "py_getitem config ''sections'' = Inr sections"
    and "render_sections (obj_str E) sections = Inr html"
  shows "snd (prepare_sections E config) = Inr html"
proof -
  have d: "is_dict sections"
    using assms(2) by (cases sections) (simp_all add: render_sections_def)
  have g: "require_key ''sections'' (Inr config) ''sections'' = ret ()"
    using dict_getitem_present[OF assms(1)] by (simp add: require_key_found)
  show ?thesis
    unfolding prepare_sections_def g ret_then_do assms py_Inr
    using d by (simp add: snd_say_then_do ret_then_do snd_ret)
qed

lemma convert_image_value:
  assumes "files (fs E) p = Some bytes"
  shows "snd (convert_image E p) =
     Inr (''data:'' @ (case guess_type E p of None \<Rightarrow> ''None'' | Some m \<Rightarrow> m) @ '';base64,''
          @ b64encode bytes)"
  using assms
  by (simp add: convert_image_def image_to_data_url_def read_file_def py_Inr
        snd_say_then_do ret_then_do snd_ret)


lemma build_of_content:
  assumes "snd (compose E) = Inr content"
    and "is_dir (fs E) dist_dir \<or> (is_dir (fs E) root_dir \<and> \<not> is_file (fs E) dist_dir)"
    and "\<not> is_dir (fs E) html_output_file_path"
  shows "ending (build E) = Finished"
    and "fs_after (build E) =
           (fs E)\<lparr>files := (files (fs E))(html_output_file_path \<mapsto> content),
                  dirs := insert dist_dir (dirs (fs E))\<rparr>"
proof -
  obtain out where c: "compose E = (out, Inr content)"
    using assms(1) by (cases "compose E") simp
  have absorb: "is_dir (fs E) dist_dir \<Longrightarrow> insert dist_dir (dirs (fs E)) = dirs (fs E)"
    by (auto simp: is_dir_def)
  show "ending (build E) = Finished"
    using assms(2,3)
    by (auto simp: build_def c mkdir_def write_file_def is_dir_def is_file_def dist_dir_def
          html_output_file_path_def)
  show "fs_after (build E) =
           (fs E)\<lparr>files := (files (fs E))(html_output_file_path \<mapsto> content),
                  dirs := insert dist_dir (dirs (fs E))\<rparr>"
    using assms(2,3) absorb
    by (auto simp: build_def c mkdir_def write_file_def is_dir_def is_file_def dist_dir_def
          html_output_file_path_def)
qed

text \<open>
  C6, as the code has it.  With both libraries, the three source files, a configuration
  whose seven text values are strings at their key-paths and whose sections render, the
  theme and font directories and files, the image file and a stylesheet that compiles,
  the run finishes and changes the file system in one place only: the file
  \<^verbatim>\<open>dist/index.html\<close> holds the template after the seven substitutions in the order of the
  script, whatever it held before, and \<^verbatim>\<open>dist\<close> is a directory, created if it was absent.
  When moreover the template is cut into literal pieces and tokens such that no literal
  piece and no value contains the marker \<^verbatim>\<open>BUILDER:\<close> or ends with a non-empty beginning of
  it, none of the seven tokens occurs in that file.
\<close>

theorem complete_run_output:
  assumes "yaml_installed E" and "sass_installed E"
    and "files (fs E) index_path = Some template"
    and "files (fs E) style_path = Some base_text"
    and "files (fs E) config_path = Some config_text"
    and "yaml_safe_load E config_text = Inr config"
    and "py_getitem2 config ''look'' ''theme'' = Inr (PStr theme_name)"
    and "py_getitem2 config ''look'' ''font'' = Inr (PStr font_name)"
    and "py_getitem2 config ''look'' ''image'' = Inr (PStr image_name)"
    and "py_getitem2 config ''look'' ''message'' = Inr (PStr message)"
    and "py_getitem2 config ''page'' ''lang'' = Inr (PStr lang)"
    and "py_getitem2 config ''page'' ''title'' = Inr (PStr title)"
    and "py_getitem2 config ''search'' ''placeholder'' = Inr (PStr placeholder)"
    and "py_getitem config ''sections'' = Inr sections"
    and "render_sections (obj_str E) sections = Inr sections_html"
    and "is_dir (fs E) (Join (Join root_dir ''themes'') theme_name)"
    and "files (fs E) (Join (Join (Join root_dir ''themes'') theme_name) ''theme.scss'')
           = Some theme_text"
    and "is_dir (fs E) (Join (Join root_dir ''fonts'') font_name)"
    and "files (fs E) (Join (Join (Join root_dir ''fonts'') font_name) ''font.scss'')
           = Some font_text"
    and "files (fs E) (PathOf image_name) = Some bytes"
    and "sass_compile E (theme_text @ ''\<newline>'' @ font_text @ ''\<newline>'' @ base_text) = Inr css"
    and "is_dir (fs E) dist_dir \<or> (is_dir (fs E) root_dir \<and> \<not> is_file (fs E) dist_dir)"
    and "\<not> is_dir (fs E) html_output_file_path"
    and "image_data_url =
           ''data:'' @ (case guess_type E (PathOf image_name) of None \<Rightarrow> ''None'' | Some m \<Rightarrow> m)
           @ '';base64,'' @ b64encode bytes"
    and "content =
           replace ''BUILDER:SEARCH_PLACEHOLDER'' placeholder
            (replace ''BUILDER:SECTIONS'' sections_html
              (replace ''BUILDER:MESSAGE'' message
                (replace ''BUILDER:IMAGE'' image_data_url
                  (replace ''BUILDER:TITLE'' title
                    (replace ''BUILDER:STYLES'' css
                      (replace ''BUILDER:LANG'' lang template))))))"
  shows "ending (build E) = Finished
         \<and> fs_after (build E) =
             (fs E)\<lparr>files := (files (fs E))(html_output_file_path \<mapsto> content),
                    dirs := insert dist_dir (dirs (fs E))\<rparr>
         \<and> (template = flatten pieces \<and> well_cut pieces \<and> marker_free lang \<and> marker_free css
              \<and> marker_free title \<and> marker_free image_data_url \<and> marker_free message
              \<and> marker_free sections_html \<and> marker_free placeholder
            \<longrightarrow> (\<forall>key\<in>set token_keys. \<not> sublist (''BUILDER:'' @ key) content))"
proof -
  let ?m = "replacement_map (PStr lang) css (PStr title) image_data_url (PStr message)
              sections_html (PStr placeholder)"
  have sub: "substitute ?m template = Inr content"
    by (simp add: replacement_map_def assms(25))
  have libs: "check_imports E = ret ()"
    using assms(1,2) by (simp add: check_imports_def)
  have srcs: "check_sources E = ret ()"
    using assms(3,4,5) by (simp add: check_sources_def is_file_def)
  have conf: "read_config E = ret config"
    using assms(5,6) by (simp add: read_config_def read_file_def bind_exn_def py_Inr)
  have idx: "read_file (fs E) index_path = Inr template"
    using assms(3) by (simp add: read_file_def)
  have cv: "snd (convert_image E (PathOf image_name)) = Inr image_data_url"
    unfolding assms(24) by (rule convert_image_value[OF assms(20)])
  have "snd (compose E) = Inr content"
    unfolding compose_def libs srcs conf getitem2_top[OF assms(7)] ret_then_do
      then_do_value[OF get_theme_value[OF assms(7,16,17)]]
      then_do_value[OF get_font_value[OF assms(7,8,18,19)]]
      then_do_value[OF get_image_value[OF assms(9,20)]]
      then_do_value[OF get_message_value[OF assms(10)]]
      then_do_value[OF get_page_value[OF assms(11,12)]]
    using sub
    by (simp add: then_do_value[OF get_search_value[OF assms(13)]]
          then_do_value[OF compile_styles_value[OF assms(17,19,4,21)]]
          then_do_value[OF prepare_sections_value[OF assms(14,15)]]
          then_do_value[OF cv] idx py_Inr ret_then_do snd_ret)
  note built = build_of_content[OF this assms(22,23)]
  have clean: "\<forall>key\<in>set token_keys. \<not> sublist (''BUILDER:'' @ key) content"
    if t: "template = flatten pieces" and w: "well_cut pieces"
      and v: "marker_free lang" "marker_free css" "marker_free title"
        "marker_free image_data_url" "marker_free message" "marker_free sections_html"
        "marker_free placeholder"
  proof -
    note shape = replacement_map_shape[OF v]
    have "substitute ?m (flatten pieces) = Inr (fill ?m pieces)"
      by (rule substitute_fill[OF w shape(1) refl shape(2,3)])
    then have "content = fill ?m pieces"
      using sub t by simp
    then have "\<not> sublist marker content"
      using fill_marker_free[OF shape(2,3) w] by simp
    then show ?thesis
      using token_needs_marker by blast
  qed
  show ?thesis
    using built clean by blast
qed

text \<open>
  A complete run whose output still holds a token: the title is the text of the language
  token, and the language pass is over when the title is put in.
\<close>

theorem token_survives_complete_run:
  "list_all (has_key_path leak_config) required_key_paths
   \<and> ending (build leak_env) = Finished
   \<and> files (fs_after (build leak_env)) html_output_file_path
       = Some ''<en|a\<newline>b\<newline>c|BUILDER:LANG|data:image/png;base64,TWFu|Hi|Find>''
   \<and> sublist ''BUILDER:LANG'' ''<en|a\<newline>b\<newline>c|BUILDER:LANG|data:image/png;base64,TWFu|Hi|Find>''"
  by code_simp


theorem complete_run_output_witness:
  "ending (build sample_env) = Finished
   \<and> fs_after (build sample_env) =
       sample_fs\<lparr>files := (files sample_fs)(html_output_file_path \<mapsto>
                  ''<en|a\<newline>b\<newline>c|Start|data:image/png;base64,TWFu|Hi|Find>''),
                dirs := insert dist_dir (dirs sample_fs)\<rparr>
   \<and> list_all (\<lambda>key. \<not> sublist (''BUILDER:'' @ key)
                  ''<en|a\<newline>b\<newline>c|Start|data:image/png;base64,TWFu|Hi|Find>'') token_keys"
proof -
  let ?content = "''<en|a\<newline>b\<newline>c|Start|data:image/png;base64,TWFu|Hi|Find>''"
  let ?html = "section_head (obj_str sample_env) (PStr ''A'') @ section_foot @ separator"
  have h1: "yaml_installed sample_env" and h2: "sass_installed sample_env"
    by (simp_all add: sample_env_def)
  have h3: "files (fs sample_env) index_path = Some (flatten sample_template)"
    and h4: "files (fs sample_env) style_path = Some ''c''"
    and h5: "files (fs sample_env) config_path = Some ''look:''"
    by code_simp+
  have h6: "yaml_safe_load sample_env ''look:'' = Inr sample_config"
    by (simp add: sample_env_def)
  have h7: "py_getitem2 sample_config ''look'' ''theme'' = Inr (PStr ''dark'')"
    and h8: "py_getitem2 sample_config ''look'' ''font'' = Inr (PStr ''mono'')"
    and h9: "py_getitem2 sample_config ''look'' ''image'' = Inr (PStr ''logo.png'')"
    and h10: "py_getitem2 sample_config ''look'' ''message'' = Inr (PStr ''Hi'')"
    and h11: "py_getitem2 sample_config ''page'' ''lang'' = Inr (PStr ''en'')"
    and h12: "py_getitem2 sample_config ''page'' ''title'' = Inr (PStr ''Start'')"
    and h13: "py_getitem2 sample_config ''search'' ''placeholder'' = Inr (PStr ''Find'')"
    and h14: "py_getitem sample_config ''sections'' = Inr (PDict [(PStr ''A'', PDict [])])"
    by code_simp+
  have h15: "render_sections (obj_str sample_env) (PDict [(PStr ''A'', PDict [])]) = Inr ?html"
    by code_simp
  have h16: "is_dir (fs sample_env) (Join (Join root_dir ''themes'') ''dark'')"
    and h17: "files (fs sample_env) (Join (Join (Join root_dir ''themes'') ''dark'') ''theme.scss'')
               = Some ''a''"
    and h18: "is_dir (fs sample_env) (Join (Join root_dir ''fonts'') ''mono'')"
    and h19: "files (fs sample_env) (Join (Join (Join root_dir ''fonts'') ''mono'') ''font.scss'')
               = Some ''b''"
    and h20: "files (fs sample_env) (PathOf ''logo.png'') = Some ''Man''"
    by code_simp+
  have h21: "sass_compile sample_env (''a'' @ ''\<newline>'' @ ''b'' @ ''\<newline>'' @ ''c'') = Inr ''a\<newline>b\<newline>c''"
    by (simp add: sample_env_def)
  have h22: "is_dir (fs sample_env) dist_dir
             \<or> (is_dir (fs sample_env) root_dir \<and> \<not> is_file (fs sample_env) dist_dir)"
    and h23: "\<not> is_dir (fs sample_env) html_output_file_path"
    by code_simp+
  have h24: "''data:image/png;base64,TWFu'' =
           ''data:'' @ (case guess_type sample_env (PathOf ''logo.png'') of
                          None \<Rightarrow> ''None'' | Some m \<Rightarrow> m)
           @ '';base64,'' @ b64encode ''Man''"
    by code_simp
  have h25: "?content =
           replace ''BUILDER:SEARCH_PLACEHOLDER'' ''Find''
            (replace ''BUILDER:SECTIONS'' ?html
              (replace ''BUILDER:MESSAGE'' ''Hi''
                (replace ''BUILDER:IMAGE'' ''data:image/png;base64,TWFu''
                  (replace ''BUILDER:TITLE'' ''Start''
                    (replace ''BUILDER:STYLES'' ''a\<newline>b\<newline>c''
                      (replace ''BUILDER:LANG'' ''en'' (flatten sample_template)))))))"
    by code_simp
  have clean: "well_cut sample_template" "marker_free ''en''" "marker_free ''a\<newline>b\<newline>c''"
    "marker_free ''Start''" "marker_free ''data:image/png;base64,TWFu''" "marker_free ''Hi''"
    "marker_free ?html" "marker_free ''Find''"
    by code_simp+
  have fs: "fs sample_env = sample_fs"
    by (simp add: sample_env_def)
  show ?thesis
    using complete_run_output[OF h1 h2 h3 h4 h5 h6 h7 h8 h9 h10 h11 h12 h13 h14 h15 h16 h17
        h18 h19 h20 h21 h22 h23 h24 h25, of sample_template] clean
    unfolding fs by (simp add: list_all_iff)
qed


subsection \<open>Runs that fail\<close>



lemma file_text: "is_file fsys p \<Longrightarrow> \<exists>text. files fsys p = Some text"
  by (simp add: is_file_def)

lemma check_imports_passed:
  "yaml_installed E \<Longrightarrow> sass_installed E \<Longrightarrow> check_imports E = ret ()"
  by (simp add: check_imports_def)

lemma check_sources_passed:
  "is_file (fs E) index_path \<Longrightarrow> is_file (fs E) style_path \<Longrightarrow> is_file (fs E) config_path \<Longrightarrow>
     check_sources E = ret ()"
  by (simp add: check_sources_def)

lemma read_config_value:
  "files (fs E) config_path = Some text \<Longrightarrow> yaml_safe_load E text = Inr config \<Longrightarrow>
     read_config E = ret config"
  by (simp add: read_config_def read_file_def bind_exn_def py_Inr)







lemma compose_after_config:
  assumes "yaml_installed E" and "sass_installed E"
    and "is_file (fs E) index_path" and "is_file (fs E) style_path"
    and "files (fs E) config_path = Some text" and "yaml_safe_load E text = Inr config"
  shows "compose E =
     then_do (require_key ''look'' (Inr config) ''look'') (\<lambda>_.
     then_do (get_theme E config) (\<lambda>theme_file_path.
     then_do (get_font E config) (\<lambda>font_file_path.
     then_do (get_image E config) (\<lambda>image_file_path.
     then_do (get_message E config) (\<lambda>welcome_message.
     then_do (get_page config) (\<lambda>(page_language, page_title).
     then_do (get_search config) (\<lambda>search_placeholder.
     then_do (compile_styles E theme_file_path font_file_path) (\<lambda>compiled_css.
     then_do (prepare_sections E config) (\<lambda>sections_html.
     then_do (convert_image E image_file_path) (\<lambda>image_data_url.
     then_do (py (read_file (fs E) index_path)) (\<lambda>index_content.
       py (substitute
             (replacement_map page_language compiled_css page_title image_data_url
                welcome_message sections_html search_placeholder)
             index_content))))))))))))"
proof -
  have c: "is_file (fs E) config_path"
    using assms(5) by (simp add: is_file_def)
  show ?thesis
    unfolding compose_def check_imports_passed[OF assms(1,2)] check_sources_passed[OF assms(3,4) c]
      read_config_value[OF assms(5,6)] ret_then_do ..
qed


















subsection \<open>The one type check\<close>

lemma has_key_path2_value:
  "has_key_path v [a, b] \<Longrightarrow> \<exists>w. py_getitem2 v a b = Inr w"
  by (cases v) (auto simp: py_getitem2_def bind_exn_def split: option.splits pyval.splits)

lemma then_do_ends:
  assumes "snd m = Inr x"
    and "snd (g x) = Inl s \<and> fst (g x) \<noteq> [] \<and> last (fst (g x)) = line"
  shows "snd (then_do m g) = Inl s \<and> fst (then_do m g) \<noteq> [] \<and> last (fst (then_do m g)) = line"
  using assms by (cases m; cases "g x") (auto simp: then_do_def)

lemma then_do_ends_here:
  assumes "m = ([line], Inl s)"
  shows "snd (then_do m g) = Inl s \<and> fst (then_do m g) \<noteq> [] \<and> last (fst (then_do m g)) = line"
  using assms by (simp add: then_do_def)

lemma build_stopped_run:
  "snd (compose E) = Inl s \<Longrightarrow>
     build E = \<lparr>printed = fst (compose E), ending = Stopped s, fs_after = fs E\<rparr>"
  by (cases "compose E") (auto simp: build_def)

lemma prepare_sections_wrong_type:
  assumes "py_getitem config ''sections'' = Inr sections" and "\<not> is_dict sections"
  shows \<open>prepare_sections E config =
     ([''Key "sections" exists, but is not the right type (should be a dictionary).\<newline>Refer to the documentation for instructions on how to correctly create a config file.''],
      Inl (Exit ConfigError))\<close>
proof -
  have g: "require_key ''sections'' (Inr config) ''sections'' = ret ()"
    using dict_getitem_present[OF assms(1)] by (simp add: require_key_found)
  show ?thesis
    unfolding prepare_sections_def g ret_then_do assms(1) py_Inr
    using assms(2) by (simp add: config_error_def exit_with_def)
qed

text \<open>
  C5, as the code has it.  Let the configuration file load to a configuration in which
  every required key-path is present.  When the value of \<^verbatim>\<open>sections\<close> is a mapping, the
  run never ends with the configuration-error exit, whatever the types of the other
  values are, and never with status 3 at all.  When it is not a mapping, the sections
  step prints the message about its type and exits with the configuration-error status,
  which is 3, and a run that passes the gates before that step (libraries, source files,
  theme, font, image, compiler) ends so, having written nothing.  The value of
  \<^verbatim>\<open>sections\<close> is the one value whose type the script checks.
\<close>

theorem only_sections_type_is_checked:
  assumes "files (fs E) config_path = Some config_text"
    and "yaml_safe_load E config_text = Inr config"
    and "list_all (has_key_path config) required_key_paths"
    and "py_getitem config ''sections'' = Inr sections"
  shows \<open>(is_dict sections \<longrightarrow>
            ending (build E) \<noteq> Stopped (Exit ConfigError)
            \<and> (\<forall>f. ending (build E) = Stopped (Exit f) \<longrightarrow> exit_status f \<noteq> 3))
         \<and> (\<not> is_dict sections \<longrightarrow>
              prepare_sections E config =
                ([''Key "sections" exists, but is not the right type (should be a dictionary).\<newline>Refer to the documentation for instructions on how to correctly create a config file.''],
                 Inl (Exit ConfigError))
              \<and> exit_status ConfigError = 3
              \<and> (yaml_installed E \<and> sass_installed E \<and> is_file (fs E) index_path
                   \<and> files (fs E) style_path = Some base_text
                   \<and> py_getitem2 config ''look'' ''theme'' = Inr (PStr theme_name)
                   \<and> is_dir (fs E) (Join (Join root_dir ''themes'') theme_name)
                   \<and> files (fs E) (Join (Join (Join root_dir ''themes'') theme_name) ''theme.scss'')
                       = Some theme_text
                   \<and> py_getitem2 config ''look'' ''font'' = Inr (PStr font_name)
                   \<and> is_dir (fs E) (Join (Join root_dir ''fonts'') font_name)
                   \<and> files (fs E) (Join (Join (Join root_dir ''fonts'') font_name) ''font.scss'')
                       = Some font_text
                   \<and> py_getitem2 config ''look'' ''image'' = Inr (PStr image_name)
                   \<and> is_file (fs E) (PathOf image_name)
                   \<and> sass_compile E (theme_text @ ''\<newline>'' @ font_text @ ''\<newline>'' @ base_text)
                       = Inr css
                  \<longrightarrow> ending (build E) = Stopped (Exit ConfigError)
                      \<and> last (printed (build E)) =
                          ''Key "sections" exists, but is not the right type (should be a dictionary).\<newline>Refer to the documentation for instructions on how to correctly create a config file.''
                      \<and> fs_after (build E) = fs E))\<close>
proof (intro conjI impI)
  assume "is_dict sections"
  then obtain secs where secs: "sections = PDict secs"
    by (cases sections) simp_all
  have status: "exit_status f \<noteq> 3" if "ending (build E) = Stopped (Exit f)" for f
  proof -
    from that have "snd (compose E) = Inl (Exit f)"
      by (auto simp: build_def split: prod.splits sum.splits)
    then show ?thesis
      by (rule compose_status[OF _ assms(1,2,3) assms(4)[unfolded secs]])
  qed
  then show "ending (build E) \<noteq> Stopped (Exit ConfigError)"
    by fastforce
  show "\<forall>f. ending (build E) = Stopped (Exit f) \<longrightarrow> exit_status f \<noteq> 3"
    using status by blast
next
  assume wrong: "\<not> is_dict sections"
  show \<open>prepare_sections E config =
     ([''Key "sections" exists, but is not the right type (should be a dictionary).\<newline>Refer to the documentation for instructions on how to correctly create a config file.''],
      Inl (Exit ConfigError))\<close>
    by (rule prepare_sections_wrong_type[OF assms(4) wrong])
  show "exit_status ConfigError = 3"
    by simp
next
  assume wrong: "\<not> is_dict sections"
  assume reach: "yaml_installed E \<and> sass_installed E \<and> is_file (fs E) index_path
                   \<and> files (fs E) style_path = Some base_text
                   \<and> py_getitem2 config ''look'' ''theme'' = Inr (PStr theme_name)
                   \<and> is_dir (fs E) (Join (Join root_dir ''themes'') theme_name)
                   \<and> files (fs E) (Join (Join (Join root_dir ''themes'') theme_name) ''theme.scss'')
                       = Some theme_text
                   \<and> py_getitem2 config ''look'' ''font'' = Inr (PStr font_name)
                   \<and> is_dir (fs E) (Join (Join root_dir ''fonts'') font_name)
                   \<and> files (fs E) (Join (Join (Join root_dir ''fonts'') font_name) ''font.scss'')
                       = Some font_text
                   \<and> py_getitem2 config ''look'' ''image'' = Inr (PStr image_name)
                   \<and> is_file (fs E) (PathOf image_name)
                   \<and> sass_compile E (theme_text @ ''\<newline>'' @ font_text @ ''\<newline>'' @ base_text)
                       = Inr css"
  have keys:
    "has_key_path config [''look'']" "has_key_path config [''look'', ''message'']"
    "has_key_path config [''page'', ''lang'']" "has_key_path config [''page'', ''title'']"
    "has_key_path config [''search'', ''placeholder'']"
    using assms(3) by (simp_all add: required_key_paths_def)
  obtain message lang title placeholder
    where m: "py_getitem2 config ''look'' ''message'' = Inr message"
      and l: "py_getitem2 config ''page'' ''lang'' = Inr lang"
      and t: "py_getitem2 config ''page'' ''title'' = Inr title"
      and p: "py_getitem2 config ''search'' ''placeholder'' = Inr placeholder"
    using has_key_path2_value[OF keys(2)] has_key_path2_value[OF keys(3)]
      has_key_path2_value[OF keys(4)] has_key_path2_value[OF keys(5)] by blast
  have st: "is_file (fs E) style_path"
    using reach by (simp add: is_file_def)
  obtain bytes where bytes: "files (fs E) (PathOf image_name) = Some bytes"
    using reach file_text by blast
  have \<open>snd (compose E) = Inl (Exit ConfigError) \<and> fst (compose E) \<noteq> []
        \<and> last (fst (compose E)) =
            ''Key "sections" exists, but is not the right type (should be a dictionary).\<newline>Refer to the documentation for instructions on how to correctly create a config file.''\<close>
    unfolding compose_after_config[OF reach[THEN conjunct1] reach[THEN conjunct2, THEN conjunct1]
        reach[THEN conjunct2, THEN conjunct2, THEN conjunct1] st assms(1,2)]
      require_key1[OF keys(1)] ret_then_do
    apply (rule then_do_ends[OF get_theme_value])
    using reach apply blast
    using reach apply blast
    using reach apply blast
    apply (rule then_do_ends[OF get_font_value])
    using reach apply blast
    using reach apply blast
    using reach apply blast
    using reach apply blast
    apply (rule then_do_ends[OF get_image_value[OF _ bytes]])
    using reach apply blast
    apply (rule then_do_ends[OF get_message_value[OF m]])
    apply (rule then_do_ends[OF get_page_value[OF l t]])
    apply (simp only: prod.case)
    apply (rule then_do_ends[OF get_search_value[OF p]])
    apply (rule then_do_ends[OF compile_styles_value])
    using reach apply blast
    using reach apply blast
    using reach apply blast
    using reach apply blast
    apply (rule then_do_ends_here[OF prepare_sections_wrong_type[OF assms(4) wrong]])
    done
  then show "ending (build E) = Stopped (Exit ConfigError)"
    and \<open>last (printed (build E)) =
            ''Key "sections" exists, but is not the right type (should be a dictionary).\<newline>Refer to the documentation for instructions on how to correctly create a config file.''\<close>
    and "fs_after (build E) = fs E"
    using build_stopped_run[of E "Exit ConfigError"] by simp_all
qed


theorem only_sections_type_is_checked_witness:
  \<open>ending (build int_title_env) = Stopped (Raise TypeError)
   \<and> ending (build int_title_env) \<noteq> Stopped (Exit ConfigError)
   \<and> ending (build list_sections_env) = Stopped (Exit ConfigError)
   \<and> last (printed (build list_sections_env)) =
       ''Key "sections" exists, but is not the right type (should be a dictionary).\<newline>Refer to the documentation for instructions on how to correctly create a config file.''\<close>
proof -
  have a: "files (fs int_title_env) config_path = Some ''look:''"
    "yaml_safe_load int_title_env ''look:'' = Inr int_title_config"
    "list_all (has_key_path int_title_config) required_key_paths"
    "py_getitem int_title_config ''sections'' = Inr (PDict [(PStr ''A'', PDict [])])"
    by code_simp+
  have raised: "ending (build int_title_env) = Stopped (Raise TypeError)"
    by code_simp
  have never: "ending (build int_title_env) \<noteq> Stopped (Exit ConfigError)"
    using only_sections_type_is_checked[OF a] by simp
  have b: "files (fs list_sections_env) config_path = Some ''look:''"
    "yaml_safe_load list_sections_env ''look:'' = Inr list_sections_config"
    "list_all (has_key_path list_sections_config) required_key_paths"
    "py_getitem list_sections_config ''sections'' = Inr (PList [])"
    by code_simp+
  have reach: "yaml_installed list_sections_env" "sass_installed list_sections_env"
    "is_file (fs list_sections_env) index_path"
    "files (fs list_sections_env) style_path = Some ''c''"
    "py_getitem2 list_sections_config ''look'' ''theme'' = Inr (PStr ''dark'')"
    "is_dir (fs list_sections_env) (Join (Join root_dir ''themes'') ''dark'')"
    "files (fs list_sections_env) (Join (Join (Join root_dir ''themes'') ''dark'') ''theme.scss'')
       = Some ''a''"
    "py_getitem2 list_sections_config ''look'' ''font'' = Inr (PStr ''mono'')"
    "is_dir (fs list_sections_env) (Join (Join root_dir ''fonts'') ''mono'')"
    "files (fs list_sections_env) (Join (Join (Join root_dir ''fonts'') ''mono'') ''font.scss'')
       = Some ''b''"
    "py_getitem2 list_sections_config ''look'' ''image'' = Inr (PStr ''logo.png'')"
    "is_file (fs list_sections_env) (PathOf ''logo.png'')"
    "sass_compile list_sections_env (''a'' @ ''\<newline>'' @ ''b'' @ ''\<newline>'' @ ''c'') = Inr ''a\<newline>b\<newline>c''"
    by code_simp+
  have refused: \<open>ending (build list_sections_env) = Stopped (Exit ConfigError)
     \<and> last (printed (build list_sections_env)) =
       ''Key "sections" exists, but is not the right type (should be a dictionary).\<newline>Refer to the documentation for instructions on how to correctly create a config file.''\<close>
    using only_sections_type_is_checked[OF b, of "''c''" "''dark''" "''a''" "''mono''" "''b''"
        "''logo.png''" "''a\<newline>b\<newline>c''"] reach
    by simp
  show ?thesis
    using raised never refused by blast
qed

end
